theory Spec2Isabelle
  imports Complex_Main "HOL-Library.Sublist"
begin

section \<open>Values, dictionaries and exceptions\<close>

text \<open>
  The values that live in the session mapping, in request bodies and in the dictionaries
  returned by the identity provider's client library are JSON values. Python's \<open>None\<close>
  is \<open>JNull\<close>. A Python \<open>float\<close> is a finite number or one of the three values that
  \<open>json.loads\<close> makes of \<open>Infinity\<close>, \<open>-Infinity\<close>, \<open>NaN\<close> and of numbers too large
  for a double. A Python \<open>str\<close> is held as the bytes of its UTF-8 encoding, a lone
  surrogate as the three bytes that the \<open>surrogatepass\<close> handler writes for it. A nested
  object keeps its entries in insertion order.
\<close>

datatype pyfloat = Finite real | PosInf | NegInf | NaN

datatype json =
    JNull
  | JBool bool
  | JNum int
  | JFloat pyfloat
  | JStr string
  | JArr "json list"
  | JObj "(string \<times> json) list"

text \<open>
  A top-level Python \<open>dict\<close> with string keys (the session as the handlers see it, a
  token result) is a map. The query parameters of a request map names to strings.
\<close>

type_synonym pydict = "string \<rightharpoonup> json"

type_synonym session = pydict

text \<open>Python's truth value of an object, as \<open>if x:\<close> and \<open>x or y\<close> test it.\<close>

fun truthy :: "json \<Rightarrow> bool" where
  "truthy JNull = False"
| "truthy (JBool b) = b"
| "truthy (JNum n) = (n \<noteq> 0)"
| "truthy (JFloat f) = (f \<noteq> Finite 0)"
| "truthy (JStr s) = (s \<noteq> [])"
| "truthy (JArr xs) = (xs \<noteq> [])"
| "truthy (JObj kvs) = (kvs \<noteq> [])"

definition py_or :: "json \<Rightarrow> json \<Rightarrow> json" where
  "py_or a b = (if truthy a then a else b)"

text \<open>\<open>d.get(k)\<close> and \<open>d.get(k, default)\<close> on a top-level dictionary.\<close>

definition py_get :: "pydict \<Rightarrow> string \<Rightarrow> json" where
  "py_get d k = (case d k of None \<Rightarrow> JNull | Some v \<Rightarrow> v)"

definition py_get_default :: "pydict \<Rightarrow> string \<Rightarrow> json \<Rightarrow> json" where
  "py_get_default d k dflt = (case d k of None \<Rightarrow> dflt | Some v \<Rightarrow> v)"

text \<open>\<open>request.query_params.get(k)\<close>: a string, or \<open>None\<close>.\<close>

definition qp_get :: "(string \<rightharpoonup> string) \<Rightarrow> string \<Rightarrow> json" where
  "qp_get q k = (case q k of None \<Rightarrow> JNull | Some s \<Rightarrow> JStr s)"

definition qp_get_default :: "(string \<rightharpoonup> string) \<Rightarrow> string \<Rightarrow> string \<Rightarrow> json" where
  "qp_get_default q k dflt = (case q k of None \<Rightarrow> JStr dflt | Some s \<Rightarrow> JStr s)"

text \<open>
  The exceptions of the program: the two it raises itself, the \<open>AttributeError\<close> of a
  \<open>.get\<close> on a value that is no dictionary, and whatever a library call raises, under
  the name of its class.
\<close>

datatype exn =
    HTTPException nat string
  | Exception json
  | AttributeError
  | LibraryError string

text \<open>\<open>x.get(k)\<close> on a nested dictionary, and \<open>str(n)\<close> of an integer.\<close>

definition kv_get :: "(string \<times> json) list \<Rightarrow> string \<Rightarrow> json" where
  "kv_get kvs k = (case map_of kvs k of None \<Rightarrow> JNull | Some v \<Rightarrow> v)"

fun str_nat :: "nat \<Rightarrow> string" where
  "str_nat n =
     (if n < 10 then [char_of (48 + n)]
      else str_nat (n div 10) @ [char_of (48 + n mod 10)])"

definition str_int :: "int \<Rightarrow> string" where
  "str_int i = (if i < 0 then CHR ''-'' # str_nat (nat (- i)) else str_nat (nat i))"

section \<open>Strings as UTF-8 bytes\<close>

text \<open>
  The code points of a string and the bytes of a code point. A byte sequence is a Python
  string when its code points are below \<open>0x110000\<close> and encode to the same bytes again;
  the surrogates \<open>0xD800\<close> to \<open>0xDFFF\<close> are code points of a Python string like any
  other. On bytes that are no Python string \<open>utf8_decode\<close> gives some list.
\<close>

fun utf8_decode :: "string \<Rightarrow> nat list" where
  "utf8_decode [] = []"
| "utf8_decode (c # cs) =
     (let b = (of_char c :: nat) in
      if b < 0xE0 then
        (if b < 0xC0 then b # utf8_decode cs
         else (case cs of
                 c1 # r \<Rightarrow> ((b - 0xC0) * 64 + (of_char c1 - 0x80)) # utf8_decode r
               | _ \<Rightarrow> [b]))
      else if b < 0xF0 then
        (case cs of
           c1 # c2 # r \<Rightarrow>
             ((b - 0xE0) * 4096 + (of_char c1 - 0x80) * 64 + (of_char c2 - 0x80)) # utf8_decode r
         | _ \<Rightarrow> [b])
      else
        (case cs of
           c1 # c2 # c3 # r \<Rightarrow>
             ((b - 0xF0) * 262144 + (of_char c1 - 0x80) * 4096 + (of_char c2 - 0x80) * 64 +
              (of_char c3 - 0x80)) # utf8_decode r
         | _ \<Rightarrow> [b]))"

definition utf8_encode :: "nat \<Rightarrow> string" where
  "utf8_encode cp =
     (if cp < 0x80 then [char_of cp]
      else if cp < 0x800 then [char_of (0xC0 + cp div 64), char_of (0x80 + cp mod 64)]
      else if cp < 0x10000 then
        [char_of (0xE0 + cp div 4096), char_of (0x80 + cp div 64 mod 64), char_of (0x80 + cp mod 64)]
      else
        [char_of (0xF0 + cp div 262144), char_of (0x80 + cp div 4096 mod 64),
         char_of (0x80 + cp div 64 mod 64), char_of (0x80 + cp mod 64)])"

definition is_pystr :: "string \<Rightarrow> bool" where
  "is_pystr s =
     (list_all (\<lambda>cp. cp < 0x110000) (utf8_decode s) \<and>
      concat (map utf8_encode (utf8_decode s)) = s)"

definition is_surrogate :: "nat \<Rightarrow> bool" where
  "is_surrogate cp = (0xD800 \<le> cp \<and> cp \<le> 0xDFFF)"

section \<open>Double precision\<close>

text \<open>
  The clock readings and the numbers of a JSON text are doubles. A real number is
  rounded to the nearest double, ties to the even mantissa: 53 bits of mantissa at the
  exponent of the number, and the fixed spacing of the subnormal numbers below the
  exponent -1022. A result of 2 to the power 1024 or more stands for an overflow.
\<close>

definition round_half_even :: "real \<Rightarrow> int" where
  "round_half_even r =
     (let f = \<lfloor>r\<rfloor> in
      if r - of_int f < 1 / 2 then f
      else if r - of_int f > 1 / 2 then f + 1
      else if even f then f else f + 1)"

definition double_exponent :: "real \<Rightarrow> int" where
  "double_exponent x = max \<lfloor>log 2 \<bar>x\<bar>\<rfloor> (- 1022)"

definition round_double :: "real \<Rightarrow> real" where
  "round_double x =
     (if x = 0 then 0
      else (let u = 2 powr of_int (double_exponent x - 52)
            in u * of_int (round_half_even (x / u))))"

section \<open>The streaming loop of \<open>stream_generator\<close>\<close>

text \<open>
  The upstream response is the sequence of lines that \<open>resp.aiter_lines()\<close> hands to the
  loop, each with the clock reading \<open>now\<close> taken when the loop body starts for it. The
  clock of the event loop is monotonic; its readings are doubles, not negative, and the
  difference \<open>now - last_yield\<close> is the double nearest to the exact difference.
  \<open>last_yield\<close> is the loop's variable of that name.
\<close>

definition heartbeat :: string where
  "heartbeat = [CHR '':'', CHR 0x0A, CHR 0x0A]"

fun stream_lines :: "real \<Rightarrow> (real \<times> string) list \<Rightarrow> string list" where
  "stream_lines last_yield [] = []"
| "stream_lines last_yield ((now, line) # rest) =
     (let beat = (round_double (now - last_yield) > 15);
          last_yield1 = (if beat then now else last_yield);
          last_yield2 = (if line \<noteq> [] then now else last_yield1)
      in (if beat then [heartbeat] else []) @
         (if line \<noteq> [] then [line] else []) @
         stream_lines last_yield2 rest)"

text \<open>The value of \<open>last_yield\<close> when the loop has consumed the given lines.\<close>

fun last_yield_after :: "real \<Rightarrow> (real \<times> string) list \<Rightarrow> real" where
  "last_yield_after last_yield [] = last_yield"
| "last_yield_after last_yield ((now, line) # rest) =
     (let beat = (round_double (now - last_yield) > 15);
          last_yield1 = (if beat then now else last_yield);
          last_yield2 = (if line \<noteq> [] then now else last_yield1)
      in last_yield_after last_yield2 rest)"

text \<open>
  What the generator yields for an upstream response with the given status code, the
  clock reading \<open>t0\<close> taken after the status check, and the timed lines that follow.
\<close>

record upstream =
  upstream_status :: nat
  t0 :: real
  lines :: "(real \<times> string) list"

definition stream_chunks :: "upstream \<Rightarrow> string list" where
  "stream_chunks resp =
     (if upstream_status resp \<noteq> 200 then [''Error: '' @ str_nat (upstream_status resp)]
      else stream_lines (t0 resp) (lines resp))"

text \<open>The clock reading of the last line consumed so far, or the start reading.\<close>

definition last_arrival :: "real \<Rightarrow> (real \<times> string) list \<Rightarrow> real" where
  "last_arrival start pre = (if pre = [] then start else fst (last pre))"

section \<open>JSON text: \<open>json.dumps\<close> and \<open>json.loads\<close>\<close>

text \<open>
  \<open>json.dumps\<close> with its default settings: non-ASCII and control characters escaped,
  the separators comma-space and colon-space, \<open>NaN\<close> and \<open>Infinity\<close> allowed. The text of a finite
  float is its \<open>repr\<close>, a function of the float library that is a parameter here.
\<close>

definition hex_digit :: "nat \<Rightarrow> char" where
  "hex_digit d = (if d < 10 then char_of (48 + d) else char_of (87 + d))"

definition hex4 :: "nat \<Rightarrow> string" where
  "hex4 n = [hex_digit (n div 4096 mod 16), hex_digit (n div 256 mod 16),
             hex_digit (n div 16 mod 16), hex_digit (n mod 16)]"

definition escape_cp :: "nat \<Rightarrow> string" where
  "escape_cp cp =
     (if cp = 0x22 then [CHR 0x5C, CHR 0x22]
      else if cp = 0x5C then [CHR 0x5C, CHR 0x5C]
      else if cp = 0x0A then [CHR 0x5C, CHR ''n'']
      else if cp = 0x0D then [CHR 0x5C, CHR ''r'']
      else if cp = 0x09 then [CHR 0x5C, CHR ''t'']
      else if cp = 0x08 then [CHR 0x5C, CHR ''b'']
      else if cp = 0x0C then [CHR 0x5C, CHR ''f'']
      else if 0x20 \<le> cp \<and> cp \<le> 0x7E then [char_of cp]
      else if cp < 0x10000 then CHR 0x5C # CHR ''u'' # hex4 cp
      else CHR 0x5C # CHR ''u'' # hex4 (0xD800 + (cp - 0x10000) div 1024) @
           CHR 0x5C # CHR ''u'' # hex4 (0xDC00 + (cp - 0x10000) mod 1024))"

definition encode_string :: "string \<Rightarrow> string" where
  "encode_string s = CHR 0x22 # concat (map escape_cp (utf8_decode s)) @ [CHR 0x22]"

fun join :: "string \<Rightarrow> string list \<Rightarrow> string" where
  "join sep [] = []"
| "join sep [x] = x"
| "join sep (x # y # r) = x @ sep @ join sep (y # r)"

fun json_dumps :: "(real \<Rightarrow> string) \<Rightarrow> json \<Rightarrow> string" where
  "json_dumps fr JNull = ''null''"
| "json_dumps fr (JBool b) = (if b then ''true'' else ''false'')"
| "json_dumps fr (JNum n) = str_int n"
| "json_dumps fr (JFloat f) =
     (case f of Finite x \<Rightarrow> fr x | PosInf \<Rightarrow> ''Infinity'' | NegInf \<Rightarrow> ''-Infinity''
      | NaN \<Rightarrow> ''NaN'')"
| "json_dumps fr (JStr s) = encode_string s"
| "json_dumps fr (JArr xs) = ''['' @ join '', '' (map (json_dumps fr) xs) @ '']''"
| "json_dumps fr (JObj kvs) =
     ''{'' @ join '', '' (map (\<lambda>(k, v). encode_string k @ '': '' @ json_dumps fr v) kvs) @ ''}''"

text \<open>
  \<open>json.loads\<close>: the scanner of the \<open>json\<close> module. \<open>scanstring\<close> reads a string after
  its opening quote; two hexadecimal escapes that form a surrogate pair give one code point. A
  number with a fraction or an exponent is a float, the double nearest to its decimal
  value. An object with a repeated key keeps the last value at the first position. The
  scanner runs on fuel, one unit for each value, element and member; a text never holds
  more of them than it has characters.
\<close>

definition is_ws :: "char \<Rightarrow> bool" where
  "is_ws c = (c = CHR 0x20 \<or> c = CHR 0x09 \<or> c = CHR 0x0A \<or> c = CHR 0x0D)"

definition skip_ws :: "string \<Rightarrow> string" where
  "skip_ws s = dropWhile is_ws s"

definition expect :: "char \<Rightarrow> string \<Rightarrow> string option" where
  "expect c s = (case s of [] \<Rightarrow> None | x # r \<Rightarrow> if x = c then Some r else None)"

definition is_digit :: "char \<Rightarrow> bool" where
  "is_digit c = (48 \<le> (of_char c :: nat) \<and> (of_char c :: nat) \<le> 57)"

definition hex_val :: "char \<Rightarrow> nat option" where
  "hex_val c =
     (let b = (of_char c :: nat) in
      if 48 \<le> b \<and> b \<le> 57 then Some (b - 48)
      else if 97 \<le> b \<and> b \<le> 102 then Some (b - 87)
      else if 65 \<le> b \<and> b \<le> 70 then Some (b - 55)
      else None)"

definition hex4_val :: "string \<Rightarrow> nat option" where
  "hex4_val s =
     (case s of
        [a, b, c, d] \<Rightarrow>
          (case (hex_val a, hex_val b, hex_val c, hex_val d) of
             (Some x, Some y, Some z, Some t) \<Rightarrow> Some (x * 4096 + y * 256 + z * 16 + t)
           | _ \<Rightarrow> None)
      | _ \<Rightarrow> None)"

definition simple_escape :: "char \<Rightarrow> char option" where
  "simple_escape e =
     (if e = CHR 0x22 then Some (CHR 0x22)
      else if e = CHR 0x5C then Some (CHR 0x5C)
      else if e = CHR ''/'' then Some (CHR ''/'')
      else if e = CHR ''b'' then Some (CHR 0x08)
      else if e = CHR ''f'' then Some (CHR 0x0C)
      else if e = CHR ''n'' then Some (CHR 0x0A)
      else if e = CHR ''r'' then Some (CHR 0x0D)
      else if e = CHR ''t'' then Some (CHR 0x09)
      else None)"

function scanstring :: "string \<Rightarrow> (string \<times> string) option" where
  "scanstring [] = None"
| "scanstring (c # cs) =
     (if c = CHR 0x22 then Some ([], cs)
      else if c = CHR 0x5C then
        (case cs of
           [] \<Rightarrow> None
         | e # r \<Rightarrow>
             if e = CHR ''u'' then
               (case hex4_val (take 4 r) of
                  None \<Rightarrow> None
                | Some uni \<Rightarrow>
                    if 0xD800 \<le> uni \<and> uni \<le> 0xDBFF \<and> take 2 (drop 4 r) = [CHR 0x5C, CHR ''u'']
                    then
                      (case hex4_val (take 4 (drop 6 r)) of
                         None \<Rightarrow> None
                       | Some uni2 \<Rightarrow>
                           if 0xDC00 \<le> uni2 \<and> uni2 \<le> 0xDFFF
                           then map_option
                                  (\<lambda>(t, rest).
                                     (utf8_encode (0x10000 + (uni - 0xD800) * 1024 + (uni2 - 0xDC00)) @ t,
                                      rest))
                                  (scanstring (drop 10 r))
                           else map_option (\<lambda>(t, rest). (utf8_encode uni @ t, rest))
                                  (scanstring (drop 4 r)))
                    else map_option (\<lambda>(t, rest). (utf8_encode uni @ t, rest))
                           (scanstring (drop 4 r)))
             else
               (case simple_escape e of
                  None \<Rightarrow> None
                | Some x \<Rightarrow> map_option (\<lambda>(t, rest). (x # t, rest)) (scanstring r)))
      else if (of_char c :: nat) < 0x20 then None
      else map_option (\<lambda>(t, rest). (c # t, rest)) (scanstring cs))"
  by pat_completeness auto
termination
  by (relation "measure length") auto

definition nat_of_digits :: "string \<Rightarrow> nat" where
  "nat_of_digits ds = foldl (\<lambda>n c. 10 * n + (of_char c - 48)) 0 ds"

definition float_of_decimal :: "bool \<Rightarrow> string \<Rightarrow> string \<Rightarrow> int \<Rightarrow> pyfloat" where
  "float_of_decimal neg ip fp ex =
     (let m = real (nat_of_digits (ip @ fp));
          v = (if ex - int (length fp) \<ge> 0 then m * 10 ^ nat (ex - int (length fp))
               else m / 10 ^ nat (int (length fp) - ex));
          r = round_double v
      in if r \<ge> 2 ^ 1024 then (if neg then NegInf else PosInf)
         else Finite (if neg then - r else r))"

definition scan_number :: "string \<Rightarrow> (json \<times> string) option" where
  "scan_number s =
     (let neg = (s \<noteq> [] \<and> hd s = CHR ''-'');
          s1 = (if neg then tl s else s);
          ds = takeWhile is_digit s1
      in if ds = [] then None
         else
           (let ip = (if hd ds = CHR ''0'' then ''0'' else ds);
                s2 = drop (length ip) s1;
                fd = (if s2 \<noteq> [] \<and> hd s2 = CHR ''.'' then takeWhile is_digit (tl s2) else []);
                s3 = (if fd = [] then s2 else drop (Suc (length fd)) s2);
                has_e = (s3 \<noteq> [] \<and> (hd s3 = CHR ''e'' \<or> hd s3 = CHR ''E''));
                s4 = (if has_e then tl s3 else s3);
                esign = (if has_e \<and> s4 \<noteq> [] \<and> hd s4 = CHR ''-'' then - 1 else (1::int));
                s5 = (if has_e \<and> s4 \<noteq> [] \<and> (hd s4 = CHR ''-'' \<or> hd s4 = CHR ''+'') then tl s4 else s4);
                ed = (if has_e then takeWhile is_digit s5 else []);
                s6 = (if ed = [] then s3 else drop (length ed) s5)
            in if fd = [] \<and> ed = []
               then Some (JNum (if neg then - int (nat_of_digits ip) else int (nat_of_digits ip)), s2)
               else Some (JFloat (float_of_decimal neg ip fd (esign * int (nat_of_digits ed))), s6)))"

fun dict_set :: "string \<Rightarrow> json \<Rightarrow> (string \<times> json) list \<Rightarrow> (string \<times> json) list" where
  "dict_set k v [] = [(k, v)]"
| "dict_set k v ((k', v') # r) = (if k = k' then (k, v) # r else (k', v') # dict_set k v r)"

definition dict_of_pairs :: "(string \<times> json) list \<Rightarrow> (string \<times> json) list" where
  "dict_of_pairs ps = foldl (\<lambda>d (k, v). dict_set k v d) [] ps"

fun scan_once :: "nat \<Rightarrow> string \<Rightarrow> (json \<times> string) option"
  and scan_elements :: "nat \<Rightarrow> json list \<Rightarrow> string \<Rightarrow> (json \<times> string) option"
  and scan_members :: "nat \<Rightarrow> (string \<times> json) list \<Rightarrow> string \<Rightarrow> (json \<times> string) option"
where
  "scan_once 0 s = None"
| "scan_once (Suc n) s =
     (case s of
        [] \<Rightarrow> None
      | c # r \<Rightarrow>
          if c = CHR 0x22 then map_option (\<lambda>(t, rest). (JStr t, rest)) (scanstring r)
          else if c = CHR ''{'' then
            (case skip_ws r of
               [] \<Rightarrow> None
             | d # r1 \<Rightarrow>
                 if d = CHR ''}'' then Some (JObj [], r1)
                 else if d = CHR 0x22 then scan_members n [] r1
                 else None)
          else if c = CHR ''['' then
            (case skip_ws r of
               [] \<Rightarrow> None
             | d # r1 \<Rightarrow>
                 if d = CHR '']'' then Some (JArr [], r1)
                 else scan_elements n [] (d # r1))
          else if c = CHR ''n'' \<and> take 4 s = ''null'' then Some (JNull, drop 4 s)
          else if c = CHR ''t'' \<and> take 4 s = ''true'' then Some (JBool True, drop 4 s)
          else if c = CHR ''f'' \<and> take 5 s = ''false'' then Some (JBool False, drop 5 s)
          else
            (case scan_number s of
               Some res \<Rightarrow> Some res
             | None \<Rightarrow>
                 if c = CHR ''N'' \<and> take 3 s = ''NaN'' then Some (JFloat NaN, drop 3 s)
                 else if c = CHR ''I'' \<and> take 8 s = ''Infinity'' then Some (JFloat PosInf, drop 8 s)
                 else if c = CHR ''-'' \<and> take 9 s = ''-Infinity'' then Some (JFloat NegInf, drop 9 s)
                 else None))"
| "scan_elements 0 acc s = None"
| "scan_elements (Suc n) acc s =
     (case scan_once n s of
        None \<Rightarrow> None
      | Some (v, s1) \<Rightarrow>
          (case skip_ws s1 of
             [] \<Rightarrow> None
           | d # s2 \<Rightarrow>
               if d = CHR '']'' then Some (JArr (acc @ [v]), s2)
               else if d = CHR '','' then scan_elements n (acc @ [v]) (skip_ws s2)
               else None))"
| "scan_members 0 acc s = None"
| "scan_members (Suc n) acc s =
     (case scanstring s of
        None \<Rightarrow> None
      | Some (key, s1) \<Rightarrow>
          (case expect (CHR '':'') (skip_ws s1) of
             None \<Rightarrow> None
           | Some s2 \<Rightarrow>
               (case scan_once n (skip_ws s2) of
                  None \<Rightarrow> None
                | Some (v, s3) \<Rightarrow>
                    (case skip_ws s3 of
                       [] \<Rightarrow> None
                     | d # s4 \<Rightarrow>
                         if d = CHR ''}'' then Some (JObj (dict_of_pairs (acc @ [(key, v)])), s4)
                         else if d = CHR '','' then
                           (case expect (CHR 0x22) (skip_ws s4) of
                              None \<Rightarrow> None
                            | Some s5 \<Rightarrow> scan_members n (acc @ [(key, v)]) s5)
                         else None))))"

definition json_loads :: "string \<Rightarrow> json option" where
  "json_loads s =
     (case scan_once (Suc (length s)) (skip_ws s) of
        None \<Rightarrow> None
      | Some (v, rest) \<Rightarrow> if skip_ws rest = [] then Some v else None)"

section \<open>Configuration, requests, responses and the outside world\<close>

text \<open>
  The module-level settings read from the environment and the secret store at start-up.
  \<open>BASIC_SCOPE\<close> is a constant of the source.
\<close>

record config =
  ENABLE_AUTHENTICATION :: bool
  AUTHORITY :: string
  REDIRECT_URI :: string
  OTHER_AUTH_SCOPES :: string
  FUNCTION_KEY :: string
  STREAMING_ENDPOINT :: string

definition BASIC_SCOPE :: "string list" where
  "BASIC_SCOPE = [''User.Read'']"

text \<open>
  A request, as far as the program reads it: its cookies, its query parameters (decoded
  by the framework, which replaces what is no Unicode text, so they hold no surrogate)
  and what \<open>await request.json()\<close> does on its body: it raises, or it returns the JSON
  value of the body, an object or not. The session mapping that the source keeps in
  \<open>request.state.session\<close> is passed to every handler beside the request and returned
  updated.
\<close>

record request =
  cookies :: "string \<rightharpoonup> string"
  query_params :: "string \<rightharpoonup> string"
  json_body :: "exn + json"

record cookie =
  cookie_key :: string
  cookie_value :: string
  cookie_max_age :: nat
  cookie_httponly :: bool
  cookie_samesite :: string

text \<open>
  A streaming body holds the payload and the headers that its generator closes over: the
  generator, and with it the call to the orchestrator, runs only when such a body is sent.
\<close>

datatype body =
    RedirectBody string
  | JsonBody json
  | FileBody string
  | StreamBody json "(string \<times> string) list" string

record response =
  status_code :: nat
  body :: body
  set_cookies :: "cookie list"

definition RedirectResponse :: "string \<Rightarrow> nat \<Rightarrow> response" where
  "RedirectResponse url status = \<lparr>status_code = status, body = RedirectBody url, set_cookies = []\<rparr>"

definition JSONResponse :: "json \<Rightarrow> nat \<Rightarrow> response" where
  "JSONResponse content status = \<lparr>status_code = status, body = JsonBody content, set_cookies = []\<rparr>"

definition StreamingResponse :: "json \<Rightarrow> (string \<times> string) list \<Rightarrow> string \<Rightarrow> response" where
  "StreamingResponse payload headers mtype =
     \<lparr>status_code = 200, body = StreamBody payload headers mtype, set_cookies = []\<rparr>"

definition set_cookie :: "cookie \<Rightarrow> response \<Rightarrow> response" where
  "set_cookie c response = response\<lparr>set_cookies := set_cookies response @ [c]\<rparr>"

text \<open>
  The framework's \<open>JSONResponse\<close> renders its content when it is built, with
  \<open>allow_nan=False\<close> and then as UTF-8: building it raises \<open>ValueError\<close> for a content
  that holds \<open>NaN\<close> or an infinity, and \<open>UnicodeEncodeError\<close> for one that holds a
  surrogate. \<open>render_error\<close> is the exception of that rendering, if any; a handler
  builds the response only when there is none.
\<close>

fun has_nonfinite :: "json \<Rightarrow> bool" where
  "has_nonfinite (JFloat f) = (case f of Finite x \<Rightarrow> False | _ \<Rightarrow> True)"
| "has_nonfinite (JArr xs) = list_ex has_nonfinite xs"
| "has_nonfinite (JObj kvs) = list_ex (\<lambda>(k, v). has_nonfinite v) kvs"
| "has_nonfinite v = False"

definition has_surrogate_str :: "string \<Rightarrow> bool" where
  "has_surrogate_str s = list_ex is_surrogate (utf8_decode s)"

fun has_surrogate :: "json \<Rightarrow> bool" where
  "has_surrogate (JStr s) = has_surrogate_str s"
| "has_surrogate (JArr xs) = list_ex has_surrogate xs"
| "has_surrogate (JObj kvs) = list_ex (\<lambda>(k, v). has_surrogate_str k \<or> has_surrogate v) kvs"
| "has_surrogate v = False"

definition render_error :: "json \<Rightarrow> exn option" where
  "render_error content =
     (if has_nonfinite content then Some (LibraryError ''ValueError'')
      else if has_surrogate content then Some (LibraryError ''UnicodeEncodeError'')
      else None)"

text \<open>
  The libraries and services the program calls are parameters: \<open>'w\<close> is the state of
  the world outside the process (identity provider, directory service, orchestrator,
  random source), \<open>'c\<close> a token cache of the identity provider's client library and
  \<open>'a\<close> one of its accounts. A call that talks to the outside takes the world and
  returns the world after it; a call that can raise returns a sum.
  \<^item> \<open>float_repr\<close>: \<open>repr\<close> of a finite float.
  \<^item> \<open>token_hex\<close>: \<open>secrets.token_hex\<close>.
  \<^item> \<open>new_cache\<close>: \<open>msal.SerializableTokenCache()\<close>; \<open>deserialize\<close> returns
    \<open>None\<close> when \<open>cache.deserialize\<close> raises (the cache is then as it was).
  \<^item> \<open>acquire_token_silent\<close>, \<open>acquire_token_by_authorization_code\<close>: the calls of that
    name on the client application built around the cache, with the cache after the call.
  \<^item> \<open>graph_member_of\<close>: the GET of \<open>/me/memberOf\<close> with the bearer token,
    \<open>raise_for_status\<close> and \<open>response.json()\<close>.
  \<^item> \<open>orchestrator_stream\<close>: the streaming POST to the orchestrator.
\<close>

record ('c, 'a, 'w) ext =
  float_repr :: "real \<Rightarrow> string"
  token_hex :: "nat \<Rightarrow> 'w \<Rightarrow> string \<times> 'w"
  new_cache :: 'c
  deserialize :: "'c \<Rightarrow> json \<Rightarrow> 'c option"
  has_state_changed :: "'c \<Rightarrow> bool"
  serialize :: "'c \<Rightarrow> string"
  get_accounts :: "'c \<Rightarrow> 'a list"
  acquire_token_silent ::
    "string list \<Rightarrow> 'a option \<Rightarrow> 'c \<Rightarrow> 'w \<Rightarrow> (exn + pydict option) \<times> 'c \<times> 'w"
  acquire_token_by_authorization_code ::
    "string \<Rightarrow> string list \<Rightarrow> string \<Rightarrow> 'c \<Rightarrow> 'w \<Rightarrow> (exn + pydict) \<times> 'c \<times> 'w"
  graph_member_of :: "json \<Rightarrow> 'w \<Rightarrow> (exn + json) \<times> 'w"
  orchestrator_stream :: "string \<Rightarrow> json \<Rightarrow> (string \<times> string) list \<Rightarrow> 'w \<Rightarrow> upstream \<times> 'w"

section \<open>Session files and \<open>FileSessionMiddleware\<close>\<close>

text \<open>
  The session files: the text of each existing file, the existing files whose open or
  read raises (no permission, bytes that are no text, a directory of that name), and the
  paths at which writing raises: at the open, as for a path whose directory does not
  exist, which leaves everything as it was, or after the open, which leaves the file
  empty.
\<close>

datatype write_fault = OpenFails exn | WriteFails exn

record fs =
  contents :: "string \<rightharpoonup> string"
  unreadable :: "string \<rightharpoonup> exn"
  unwritable :: "string \<rightharpoonup> write_fault"

definition write_file :: "fs \<Rightarrow> string \<Rightarrow> string \<Rightarrow> exn option \<times> fs" where
  "write_file files path text =
     (case unwritable files path of
        None \<Rightarrow> (None, files\<lparr>contents := (contents files)(path \<mapsto> text)\<rparr>)
      | Some (OpenFails e) \<Rightarrow> (Some e, files)
      | Some (WriteFails e) \<Rightarrow> (Some e, files\<lparr>contents := (contents files)(path \<mapsto> [])\<rparr>))"

record middleware =
  session_dir :: string
  cookie_name :: string
  max_age :: nat

text \<open>\<open>app.add_middleware(FileSessionMiddleware)\<close>: the defaults of \<open>__init__\<close>.\<close>

definition default_middleware :: middleware where
  "default_middleware = \<lparr>session_dir = ''sessions'', cookie_name = ''session_id'', max_age = 86400\<rparr>"

text \<open>\<open>os.path.join\<close> of two components, on a POSIX system.\<close>

definition os_path_join :: "string \<Rightarrow> string \<Rightarrow> string" where
  "os_path_join a b =
     (if b \<noteq> [] \<and> hd b = CHR ''/'' then b
      else if a = [] \<or> last a = CHR ''/'' then a @ b
      else a @ ''/'' @ b)"

definition session_file :: "middleware \<Rightarrow> string \<Rightarrow> string" where
  "session_file mw session_id = os_path_join (session_dir mw) (session_id @ ''.json'')"

text \<open>\<open>if session_id:\<close> on the value of \<open>request.cookies.get(...)\<close>.\<close>

definition str_truthy :: "string option \<Rightarrow> bool" where
  "str_truthy x = (case x of None \<Rightarrow> False | Some s \<Rightarrow> s \<noteq> [])"

text \<open>
  The first part of \<open>dispatch\<close> (up to the assignment to \<open>request.state.session\<close>): the
  value the handler will see, from the files as they are when the request arrives. The
  open and the read stand outside the \<open>try\<close> and their exception leaves \<open>dispatch\<close>;
  a text that \<open>json.loads\<close> refuses gives the empty dictionary; a text that is JSON but
  no object gives that value.
\<close>

definition load_session :: "middleware \<Rightarrow> request \<Rightarrow> fs \<Rightarrow> exn + json" where
  "load_session mw request files =
     (case cookies request (cookie_name mw) of
        None \<Rightarrow> Inr (JObj [])
      | Some session_id \<Rightarrow>
          if session_id = [] then Inr (JObj [])
          else (case contents files (session_file mw session_id) of
                  None \<Rightarrow> Inr (JObj [])
                | Some content \<Rightarrow>
                    (case unreadable files (session_file mw session_id) of
                       Some e \<Rightarrow> Inl e
                     | None \<Rightarrow>
                         (case json_loads content of
                            None \<Rightarrow> Inr (JObj [])
                          | Some session_data \<Rightarrow> Inr session_data))))"

text \<open>
  \<open>dispatch\<close>. The state is the session files together with the outside world.
  \<open>call_next\<close> runs the rest of the application on the request and the loaded value;
  it returns the response or the exception that came out of it, the session value as
  the handler left it, and the state after it. An exception out of \<open>call_next\<close> leaves
  \<open>dispatch\<close> at once: the source has no \<open>try\<close> around the call. So does an exception
  of the write at the end.
\<close>

definition dispatch ::
  "middleware \<Rightarrow> ('c, 'a, 'w) ext \<Rightarrow> request \<Rightarrow>
   (request \<Rightarrow> json \<Rightarrow> fs \<times> 'w \<Rightarrow> (exn + response) \<times> json \<times> fs \<times> 'w) \<Rightarrow>
   fs \<times> 'w \<Rightarrow> (exn + response) \<times> fs \<times> 'w" where
  "dispatch mw ex request call_next st =
     (let session_id = cookies request (cookie_name mw)
      in case load_session mw request (fst st) of
           Inl e \<Rightarrow> (Inl e, st)
         | Inr session_data \<Rightarrow>
             (case call_next request session_data st of
                (Inl e, session_data', st') \<Rightarrow> (Inl e, st')
              | (Inr response, session_data', files', w') \<Rightarrow>
                  (let (session_id', response', w'') =
                         (if \<not> str_truthy session_id then
                            (let (new_id, w1) = token_hex ex 16 w'
                             in (new_id,
                                 set_cookie
                                   \<lparr>cookie_key = cookie_name mw, cookie_value = new_id,
                                    cookie_max_age = max_age mw, cookie_httponly = True,
                                    cookie_samesite = ''lax''\<rparr> response,
                                 w1))
                          else (the session_id, response, w'))
                   in case write_file files' (session_file mw session_id')
                             (json_dumps (float_repr ex) session_data') of
                        (Some e, files'') \<Rightarrow> (Inl e, files'', w'')
                      | (None, files'') \<Rightarrow> (Inr response', files'', w''))))"

section \<open>Token cache helpers and silent token acquisition\<close>

definition load_cache :: "('c, 'a, 'w) ext \<Rightarrow> session \<Rightarrow> 'c" where
  "load_cache ex sess =
     (case sess ''msal_cache'' of
        None \<Rightarrow> new_cache ex
      | Some blob \<Rightarrow>
          (case deserialize ex (new_cache ex) blob of
             None \<Rightarrow> new_cache ex
           | Some cache \<Rightarrow> cache))"

definition save_cache :: "('c, 'a, 'w) ext \<Rightarrow> session \<Rightarrow> 'c \<Rightarrow> session" where
  "save_cache ex sess cache =
     (if has_state_changed ex cache then sess(''msal_cache'' \<mapsto> JStr (serialize ex cache))
      else sess)"

definition no_token_msg :: string where
  "no_token_msg = ''Could not refresh token silently: no token found in cache.''"

definition get_valid_access_token ::
  "('c, 'a, 'w) ext \<Rightarrow> session \<Rightarrow> string list \<Rightarrow> 'w \<Rightarrow> (exn + json) \<times> session \<times> 'w" where
  "get_valid_access_token ex sess scopes w =
     (let cache = load_cache ex sess;
          accounts = get_accounts ex cache;
          account = (case accounts of [] \<Rightarrow> None | a # _ \<Rightarrow> Some a)
      in case acquire_token_silent ex scopes account cache w of
           (Inl e, cache', w') \<Rightarrow> (Inl e, sess, w')
         | (Inr None, cache', w') \<Rightarrow> (Inl (Exception (JStr no_token_msg)), sess, w')
         | (Inr (Some result), cache', w') \<Rightarrow>
             if result = Map.empty \<or> result ''access_token'' = None
             then (Inl (Exception (JStr no_token_msg)), sess, w')
             else if result ''error'' \<noteq> None
             then (Inl (Exception (py_get_default result ''error_description''
                                     (JStr ''Could not refresh token silently.''))), sess, w')
             else (Inr (py_get result ''access_token''), save_cache ex sess cache', w'))"

section \<open>Authentication endpoints\<close>

text \<open>
  The second half of the callback handler \<open>authorized\<close>, from \<open>cache = _load_cache(request)\<close>
  on: the exchange of the authorization code and the filling of the session.
\<close>

definition authorized_exchange ::
  "('c, 'a, 'w) ext \<Rightarrow> config \<Rightarrow> string \<Rightarrow> session \<Rightarrow> 'w \<Rightarrow> (exn + response) \<times> session \<times> 'w" where
  "authorized_exchange ex cfg code sess w =
     (let cache = load_cache ex sess
      in case acquire_token_by_authorization_code ex code BASIC_SCOPE (REDIRECT_URI cfg) cache w of
           (Inl e, cache', w') \<Rightarrow> (Inl e, sess, w')
         | (Inr result, cache', w') \<Rightarrow>
             if result ''error'' \<noteq> None
             then (let content = JObj [(''error'', py_get_default result ''error_description''
                                                    (JStr ''Could not acquire token''))]
                   in case render_error content of
                        Some e \<Rightarrow> (Inl e, sess, w')
                      | None \<Rightarrow> (Inr (JSONResponse content 400), sess, w'))
             else (case py_get_default result ''id_token_claims'' (JObj []) of
                     JObj user_claims \<Rightarrow>
                       (let minimal_user = JObj
                              [(''oid'', kv_get user_claims ''oid''),
                               (''preferred_username'',
                                  py_or (kv_get user_claims ''preferred_username'')
                                        (kv_get user_claims ''upn''))];
                            sess1 = sess(''user'' \<mapsto> minimal_user);
                            sess2 = sess1(''graph_access_token'' \<mapsto> py_get result ''access_token'');
                            sess3 = sess2(''refresh_token'' \<mapsto> py_get result ''refresh_token'');
                            sess4 = save_cache ex sess3 cache';
                            sess5 = sess4(''state'' := None)
                        in (Inr (RedirectResponse ''/'' 303), sess5, w'))
                   | _ \<Rightarrow> (Inl AttributeError, sess, w')))"

text \<open>The callback handler \<open>authorized\<close> (route \<open>REDIRECT_PATH\<close>).\<close>

definition authorized ::
  "('c, 'a, 'w) ext \<Rightarrow> config \<Rightarrow> request \<Rightarrow> session \<Rightarrow> 'w \<Rightarrow> (exn + response) \<times> session \<times> 'w" where
  "authorized ex cfg request sess w =
     (if \<not> ENABLE_AUTHENTICATION cfg then (Inr (RedirectResponse ''/'' 303), sess, w)
      else if truthy (py_get sess ''user'') then (Inr (RedirectResponse ''/'' 303), sess, w)
      else if qp_get (query_params request) ''state'' \<noteq> py_get sess ''state''
      then (Inr (JSONResponse (JObj [(''error'', JStr ''State mismatch'')]) 400), sess, w)
      else if query_params request ''error'' \<noteq> None
      then (Inr (JSONResponse
                   (JObj [(''error'', qp_get_default (query_params request)
                                        ''error_description'' ''Unknown error'')]) 400),
            sess, w)
      else (case query_params request ''code'' of
              None \<Rightarrow>
                (Inr (JSONResponse (JObj [(''error'', JStr ''Authorization code not found'')]) 400),
                 sess, w)
            | Some code \<Rightarrow>
                if code = []
                then (Inr (JSONResponse
                             (JObj [(''error'', JStr ''Authorization code not found'')]) 400),
                      sess, w)
                else authorized_exchange ex cfg code sess w))"

text \<open>The handler \<open>logout\<close>: \<open>request.state.session.clear()\<close>, then the redirect.\<close>

definition logout :: "config \<Rightarrow> request \<Rightarrow> session \<Rightarrow> 'w \<Rightarrow> (exn + response) \<times> session \<times> 'w" where
  "logout cfg request sess w =
     (let sess' = (Map.empty :: session);
          logout_url = AUTHORITY cfg @ ''/oauth2/v2.0/logout?post_logout_redirect_uri='' @
                       REDIRECT_URI cfg
      in (Inr (RedirectResponse logout_url 303), sess', w))"

section \<open>\<open>check_authorization\<close>\<close>

record auth_info =
  is_authorized :: bool
  client_principal_id :: json
  client_principal_name :: json
  client_group_names :: "json list"
  access_token :: json

text \<open>
  \<open>str.split(",")\<close> and \<open>str.strip()\<close>, and the list comprehension that turns
  \<open>OTHER_AUTH_SCOPES\<close> into scopes. \<open>strip\<close> removes the code points that
  \<open>str.isspace\<close> accepts from both ends.
\<close>

fun split_on :: "char \<Rightarrow> string \<Rightarrow> string list" where
  "split_on c [] = [[]]"
| "split_on c (x # xs) =
     (if x = c then [] # split_on c xs
      else (case split_on c xs of
              [] \<Rightarrow> [[x]]
            | p # ps \<Rightarrow> (x # p) # ps))"

definition is_space :: "nat \<Rightarrow> bool" where
  "is_space cp =
     ((0x09 \<le> cp \<and> cp \<le> 0x0D) \<or> (0x1C \<le> cp \<and> cp \<le> 0x20) \<or> cp = 0x85 \<or> cp = 0xA0 \<or>
      cp = 0x1680 \<or> (0x2000 \<le> cp \<and> cp \<le> 0x200A) \<or> cp = 0x2028 \<or> cp = 0x2029 \<or>
      cp = 0x202F \<or> cp = 0x205F \<or> cp = 0x3000)"

definition strip :: "string \<Rightarrow> string" where
  "strip s =
     concat (map utf8_encode
       (rev (dropWhile is_space (rev (dropWhile is_space (utf8_decode s))))))"

definition other_scopes :: "string \<Rightarrow> string list" where
  "other_scopes s = filter (\<lambda>x. x \<noteq> []) (map strip (split_on CHR '','' s))"

text \<open>
  The list comprehension over the directory's answer. \<open>None\<close> when it raises: the answer
  is no object, its \<open>value\<close> cannot be iterated, or an element has no \<open>get\<close>. Iterating
  a dictionary or a string gives strings, which have no \<open>get\<close>.
\<close>

definition display_name :: "json \<Rightarrow> json option" where
  "display_name g =
     (case g of
        JObj kvs \<Rightarrow> Some (case map_of kvs ''displayName'' of
                            None \<Rightarrow> JStr ''missing-group'' | Some v \<Rightarrow> v)
      | _ \<Rightarrow> None)"

definition group_names :: "json \<Rightarrow> json list option" where
  "group_names group_data =
     (case group_data of
        JObj kvs \<Rightarrow>
          (case (case map_of kvs ''value'' of None \<Rightarrow> JArr [] | Some v \<Rightarrow> v) of
             JArr gs \<Rightarrow>
               if list_all (\<lambda>g. display_name g \<noteq> None) gs
               then Some (map (\<lambda>g. the (display_name g)) gs) else None
           | JObj es \<Rightarrow> if es = [] then Some [] else None
           | JStr s \<Rightarrow> if s = [] then Some [] else None
           | _ \<Rightarrow> None)
      | _ \<Rightarrow> None)"

text \<open>The group lookup at the end of \<open>check_authorization\<close>; every failure leaves \<open>[]\<close>.\<close>

definition lookup_groups :: "('c, 'a, 'w) ext \<Rightarrow> json \<Rightarrow> 'w \<Rightarrow> json list \<times> 'w" where
  "lookup_groups ex graph_access_token w =
     (if truthy graph_access_token then
        (case graph_member_of ex graph_access_token w of
           (Inl e, w') \<Rightarrow> ([], w')
         | (Inr group_data, w') \<Rightarrow>
             (case group_names group_data of None \<Rightarrow> ([], w') | Some groups \<Rightarrow> (groups, w')))
      else ([], w))"

text \<open>The two \<open>try\<close> blocks that refresh a token and fall back to the session.\<close>

definition refresh_graph_token ::
  "('c, 'a, 'w) ext \<Rightarrow> session \<Rightarrow> 'w \<Rightarrow> json \<times> session \<times> 'w" where
  "refresh_graph_token ex sess w =
     (case get_valid_access_token ex sess BASIC_SCOPE w of
        (Inr graph_access_token, sess', w') \<Rightarrow>
          (graph_access_token, sess'(''graph_access_token'' \<mapsto> graph_access_token), w')
      | (Inl e, sess', w') \<Rightarrow> (py_get sess' ''graph_access_token'', sess', w'))"

definition refresh_other_token ::
  "('c, 'a, 'w) ext \<Rightarrow> config \<Rightarrow> session \<Rightarrow> 'w \<Rightarrow> json \<times> session \<times> 'w" where
  "refresh_other_token ex cfg sess w =
     (if OTHER_AUTH_SCOPES cfg \<noteq> [] then
        (case get_valid_access_token ex sess (other_scopes (OTHER_AUTH_SCOPES cfg)) w of
           (Inr other_access_token, sess', w') \<Rightarrow>
             (other_access_token, sess'(''other_access_token'' \<mapsto> other_access_token), w')
         | (Inl e, sess', w') \<Rightarrow> (py_get sess' ''other_access_token'', sess', w'))
      else (JNull, sess, w))"

definition check_authorization ::
  "('c, 'a, 'w) ext \<Rightarrow> config \<Rightarrow> session \<Rightarrow> 'w \<Rightarrow> (exn + auth_info) \<times> session \<times> 'w" where
  "check_authorization ex cfg sess w =
     (if \<not> ENABLE_AUTHENTICATION cfg then
        (Inr \<lparr>is_authorized = True, client_principal_id = JStr ''no-auth'',
              client_principal_name = JStr ''anonymous'', client_group_names = [],
              access_token = JNull\<rparr>, sess, w)
      else
        (let user = py_get sess ''user'' in
         if \<not> truthy user then
           (Inr \<lparr>is_authorized = False, client_principal_id = JNull,
                 client_principal_name = JNull, client_group_names = [],
                 access_token = JNull\<rparr>, sess, w)
         else
           (case user of
              JObj u \<Rightarrow>
                (let principal_id = kv_get u ''oid'';
                     principal_name = py_or (kv_get u ''preferred_username'') (kv_get u ''upn'');
                     (graph_access_token, sess1, w1) = refresh_graph_token ex sess w;
                     (other_access_token, sess2, w2) = refresh_other_token ex cfg sess1 w1;
                     token = (if truthy other_access_token then other_access_token
                              else graph_access_token);
                     (groups, w3) = lookup_groups ex graph_access_token w2
                 in (Inr \<lparr>is_authorized = True, client_principal_id = principal_id,
                          client_principal_name = principal_name, client_group_names = groups,
                          access_token = token\<rparr>, sess2, w3))
            | _ \<Rightarrow> (Inl AttributeError, sess, w))))"

section \<open>The \<open>/speak\<close> endpoint\<close>

text \<open>
  \<open>speak\<close>. \<open>await request.json()\<close> comes first and its exception leaves the handler;
  \<open>body.get\<close> raises \<open>AttributeError\<close> when the body is JSON but no object. The 401
  response is built from the request's \<open>conversation_id\<close> and is rendered when built.
\<close>

definition speak ::
  "('c, 'a, 'w) ext \<Rightarrow> config \<Rightarrow> request \<Rightarrow> session \<Rightarrow> 'w \<Rightarrow> (exn + response) \<times> session \<times> 'w" where
  "speak ex cfg request sess w =
     (case json_body request of
        Inl e \<Rightarrow> (Inl e, sess, w)
      | Inr (JObj kvs) \<Rightarrow>
          (let body = kvs;
               question = kv_get body ''spokenText'';
               conversation_id = (case map_of body ''conversation_id'' of
                                    None \<Rightarrow> JStr [] | Some v \<Rightarrow> v)
           in if \<not> truthy question
              then (Inl (HTTPException 400 ''Missing spokenText in request.''), sess, w)
              else
                (case check_authorization ex cfg sess w of
                   (Inl e, sess', w') \<Rightarrow> (Inl e, sess', w')
                 | (Inr info, sess', w') \<Rightarrow>
                     if \<not> is_authorized info then
                       (let content = JObj
                              [(''answer'', JStr (''You are not authorized to access this service. '' @
                                                  ''Please contact your administrator.'')),
                               (''thoughts'', JStr ''User not authorized.''),
                               (''conversation_id'', conversation_id)]
                        in case render_error content of
                             Some e \<Rightarrow> (Inl e, sess', w')
                           | None \<Rightarrow> (Inr (JSONResponse content 401), sess', w'))
                     else
                       (let payload = JObj
                              ([(''conversation_id'', conversation_id),
                                (''question'', question),
                                (''text_only'', JBool True),
                                (''client_principal_id'', client_principal_id info),
                                (''client_principal_name'', client_principal_name info),
                                (''client_group_names'', JArr (client_group_names info))] @
                               (if truthy (access_token info)
                                then [(''access_token'', access_token info)] else []));
                            headers = [(''x-functions-key'', FUNCTION_KEY cfg),
                                       (''Content-Type'', ''application/json'')]
                        in (Inr (StreamingResponse payload headers ''text/event-stream''),
                            sess', w'))))
      | Inr _ \<Rightarrow> (Inl AttributeError, sess, w))"

text \<open>
  \<open>stream_generator\<close>, run when the streaming body is sent: the POST to the orchestrator,
  then the chunks yielded for its response.
\<close>

definition stream_generator ::
  "('c, 'a, 'w) ext \<Rightarrow> config \<Rightarrow> json \<Rightarrow> (string \<times> string) list \<Rightarrow> 'w \<Rightarrow> string list \<times> 'w" where
  "stream_generator ex cfg payload headers w =
     (let (resp, w') = orchestrator_stream ex (STREAMING_ENDPOINT cfg) payload headers w
      in (stream_chunks resp, w'))"

section \<open>A concrete configuration and outside world\<close>

text \<open>
  Concrete inputs on which the theorems below are evaluated: authentication enabled, a
  request with an empty JSON object as its body, and an outside world that counts the
  calls made to it. Its token cache is a pair of the changed flag and the serialized
  content. In the session files nothing exists yet; only the directory \<open>sessions\<close>
  does, so the open of a path with a further directory below it raises.
\<close>

definition demo_cfg :: config where
  "demo_cfg = \<lparr>ENABLE_AUTHENTICATION = True,
                AUTHORITY = ''https://login.microsoftonline.com/your_tenant_id'',
                REDIRECT_URI = ''http://localhost:8000/getAToken'',
                OTHER_AUTH_SCOPES = '''',
                FUNCTION_KEY = ''k'',
                STREAMING_ENDPOINT = ''http://localhost:7071/api/orcstream''\<rparr>"

definition demo_request :: request where
  "demo_request = \<lparr>cookies = Map.empty, query_params = Map.empty, json_body = Inr (JObj [])\<rparr>"

definition demo_ext :: "(bool \<times> string, unit, nat) ext" where
  "demo_ext =
     \<lparr>float_repr = (\<lambda>x. ''0.0''),
      token_hex = (\<lambda>n w. (''000102030405060708090a0b0c0d0e0f'', Suc w)),
      new_cache = (False, []),
      deserialize = (\<lambda>c blob. case blob of JStr s \<Rightarrow> Some (False, s) | _ \<Rightarrow> None),
      has_state_changed = fst,
      serialize = snd,
      get_accounts = (\<lambda>c. if snd c = [] then [] else [()]),
      acquire_token_silent = (\<lambda>scopes account c w.
         case account of
           None \<Rightarrow> (Inr None, c, Suc w)
         | Some a \<Rightarrow> (Inr (Some [''access_token'' \<mapsto> JStr (''token-'' @ snd c)]), (True, snd c), Suc w)),
      acquire_token_by_authorization_code = (\<lambda>code scopes uri c w.
         (Inr [''access_token'' \<mapsto> JStr ''at'', ''refresh_token'' \<mapsto> JStr ''rt'',
               ''id_token_claims'' \<mapsto> JObj [(''oid'', JStr ''u1''), (''upn'', JStr ''alice'')]],
          (True, code), Suc w)),
      graph_member_of = (\<lambda>token w.
         (Inr (JObj [(''value'', JArr [JObj [(''displayName'', JStr ''staff'')]])]), Suc w)),
      orchestrator_stream = (\<lambda>url payload headers w.
         (\<lparr>upstream_status = 200, t0 = 0, lines = [(1, ''data: hi'')]\<rparr>, Suc w))\<rparr>"

definition demo_fs :: fs where
  "demo_fs =
     \<lparr>contents = Map.empty,
      unreadable = Map.empty,
      unwritable = (\<lambda>path. if CHR ''/'' \<in> set (drop 9 path)
                             then Some (OpenFails (LibraryError ''FileNotFoundError''))
                             else None)\<rparr>"

text \<open>
  Two applications behind the middleware: one stores a nonce in the session, as a login
  does, and redirects; the other stores the nonce and then raises, as a login does whose
  identity provider cannot be reached.
\<close>

definition store_nonce_next ::
  "request \<Rightarrow> json \<Rightarrow> fs \<times> nat \<Rightarrow> (exn + response) \<times> json \<times> fs \<times> nat" where
  "store_nonce_next request session_data st =
     (Inr (RedirectResponse ''/'' 303), JObj [(''state'', JStr ''n1'')], st)"

definition failing_next ::
  "request \<Rightarrow> json \<Rightarrow> fs \<times> nat \<Rightarrow> (exn + response) \<times> json \<times> fs \<times> nat" where
  "failing_next request session_data st =
     (Inl (LibraryError ''ConnectionError''), JObj [(''state'', JStr ''n1'')], st)"

section \<open>Properties of rounding to a double\<close>

lemma round_half_even_int [simp]: "round_half_even (of_int n) = n"
  by (simp add: round_half_even_def)

lemma round_half_even_mono: "r \<le> s \<Longrightarrow> round_half_even r \<le> round_half_even s"
proof -
  assume rs: "r \<le> s"
  then have fl: "\<lfloor>r\<rfloor> \<le> \<lfloor>s\<rfloor>" by (rule floor_mono)
  have lo: "\<lfloor>s\<rfloor> \<le> round_half_even s" and hi: "round_half_even r \<le> \<lfloor>r\<rfloor> + 1"
    by (simp_all add: round_half_even_def Let_def)
  show ?thesis
  proof (cases "\<lfloor>r\<rfloor> < \<lfloor>s\<rfloor>")
    case True
    with lo hi show ?thesis by linarith
  next
    case False
    with fl have eq: "\<lfloor>r\<rfloor> = \<lfloor>s\<rfloor>" by simp
    with rs show ?thesis
      by (auto simp: round_half_even_def Let_def)
  qed
qed

lemma round_half_even_ge: "of_int n \<le> r \<Longrightarrow> n \<le> round_half_even r"
  using round_half_even_mono [of "of_int n" r] by simp

lemma round_half_even_le: "r \<le> of_int n \<Longrightarrow> round_half_even r \<le> n"
  using round_half_even_mono [of r "of_int n"] by simp

lemma round_double_nonpos: "x \<le> 0 \<Longrightarrow> round_double x \<le> 0"
proof -
  assume x: "x \<le> 0"
  have "round_half_even (x / 2 powr of_int (double_exponent x - 52)) \<le> 0"
    using x by (intro round_half_even_le) (simp add: divide_nonpos_pos)
  then have "of_int (round_half_even (x / 2 powr of_int (double_exponent x - 52))) \<le> (0::real)"
    by simp
  then show ?thesis
    by (simp add: round_double_def Let_def mult_le_0_iff)
qed

lemma double_exponent_mono: "0 < x \<Longrightarrow> x \<le> y \<Longrightarrow> double_exponent x \<le> double_exponent y"
proof -
  assume "0 < x" "x \<le> y"
  then have "log 2 x \<le> log 2 y" by simp
  then have "\<lfloor>log 2 x\<rfloor> \<le> \<lfloor>log 2 y\<rfloor>" by (rule floor_mono)
  with \<open>0 < x\<close> \<open>x \<le> y\<close> show ?thesis
    by (simp add: double_exponent_def)
qed

lemma double_exponent_upper: "0 < x \<Longrightarrow> x < 2 powr of_int (double_exponent x + 1)"
proof -
  assume x: "0 < x"
  have "x < 2 powr (of_int \<lfloor>log 2 x\<rfloor> + 1)"
    using x floor_log_eq_powr_iff [of x 2 "\<lfloor>log 2 x\<rfloor>"] by simp
  also have "\<dots> \<le> 2 powr of_int (double_exponent x + 1)"
    using x by (intro powr_mono) (simp_all add: double_exponent_def)
  finally show ?thesis .
qed

lemma double_exponent_lower:
  "0 < x \<Longrightarrow> - 1022 < double_exponent x \<Longrightarrow> 2 powr of_int (double_exponent x) \<le> x"
proof -
  assume x: "0 < x" and e: "- 1022 < double_exponent x"
  then have "double_exponent x = \<lfloor>log 2 x\<rfloor>"
    by (simp add: double_exponent_def max_def split: if_splits)
  then show ?thesis
    using x floor_log_eq_powr_iff [of x 2 "\<lfloor>log 2 x\<rfloor>"] by simp
qed

lemma round_double_upper:
  assumes x: "0 < x"
  shows "round_double x \<le> 2 powr of_int (double_exponent x + 1)"
proof -
  let ?u = "2 powr of_int (double_exponent x - 52) :: real"
  have u: "0 < ?u" by simp
  have "real_of_int (double_exponent x + 1) = of_int (double_exponent x - 52) + 53"
    by simp
  then have split: "2 powr of_int (double_exponent x + 1) = ?u * 2 powr 53"
    by (simp only: powr_add)
  have "x / ?u \<le> 2 powr 53"
    using double_exponent_upper [OF x] u unfolding split
    by (simp add: field_simps)
  then have "x / ?u \<le> of_int (2 ^ 53)" by simp
  then have "round_half_even (x / ?u) \<le> 2 ^ 53" by (rule round_half_even_le)
  then have "real_of_int (round_half_even (x / ?u)) \<le> of_int (2 ^ 53)"
    by (simp only: of_int_le_iff)
  then have "real_of_int (round_half_even (x / ?u)) \<le> 2 powr 53"
    by simp
  then have "?u * real_of_int (round_half_even (x / ?u)) \<le> ?u * 2 powr 53"
    using u by (simp only: mult_le_cancel_left_pos)
  then show ?thesis
    using x unfolding split by (simp add: round_double_def Let_def)
qed

lemma round_double_lower:
  assumes x: "0 < x" and e: "- 1022 < double_exponent x"
  shows "2 powr of_int (double_exponent x) \<le> round_double x"
proof -
  let ?u = "2 powr of_int (double_exponent x - 52) :: real"
  have u: "0 < ?u" by simp
  have "real_of_int (double_exponent x) = of_int (double_exponent x - 52) + 52"
    by simp
  then have split: "2 powr of_int (double_exponent x) = ?u * 2 powr 52"
    by (simp only: powr_add)
  have "2 powr 52 \<le> x / ?u"
    using double_exponent_lower [OF x e] u unfolding split
    by (simp add: field_simps)
  then have "of_int (2 ^ 52) \<le> x / ?u" by simp
  then have "2 ^ 52 \<le> round_half_even (x / ?u)" by (rule round_half_even_ge)
  then have "of_int (2 ^ 52) \<le> real_of_int (round_half_even (x / ?u))"
    by (simp only: of_int_le_iff)
  then have "2 powr 52 \<le> real_of_int (round_half_even (x / ?u))"
    by simp
  then have "?u * 2 powr 52 \<le> ?u * real_of_int (round_half_even (x / ?u))"
    using u by (simp only: mult_le_cancel_left_pos)
  then show ?thesis
    using x unfolding split by (simp add: round_double_def Let_def)
qed

lemma round_double_mono:
  assumes x: "0 < x" and xy: "x \<le> y"
  shows "round_double x \<le> round_double y"
proof -
  have y: "0 < y" using x xy by simp
  have ee: "double_exponent x \<le> double_exponent y"
    using x xy by (rule double_exponent_mono)
  show ?thesis
  proof (cases "double_exponent x = double_exponent y")
    case True
    let ?u = "2 powr of_int (double_exponent y - 52) :: real"
    have "x / ?u \<le> y / ?u" using xy by (simp add: divide_right_mono)
    then have "round_half_even (x / ?u) \<le> round_half_even (y / ?u)"
      by (rule round_half_even_mono)
    then have "?u * real_of_int (round_half_even (x / ?u)) \<le> ?u * real_of_int (round_half_even (y / ?u))"
      by (simp add: mult_left_mono)
    then show ?thesis
      using x y True by (simp add: round_double_def Let_def)
  next
    case False
    with ee have lt: "double_exponent x + 1 \<le> double_exponent y" by simp
    have big: "- 1022 < double_exponent y"
      using lt by (simp add: double_exponent_def)
    have "round_double x \<le> 2 powr of_int (double_exponent x + 1)"
      using x by (rule round_double_upper)
    also have "\<dots> \<le> 2 powr of_int (double_exponent y)"
      using lt by (intro powr_mono) simp_all
    also have "\<dots> \<le> round_double y"
      using y big by (rule round_double_lower)
    finally show ?thesis .
  qed
qed

lemma round_double_at_exponent_3:
  assumes "8 \<le> x" and "x < 16"
  shows "round_double x = of_int (round_half_even (x * 2 ^ 49)) / 2 ^ 49"
proof -
  have pos: "0 < x" using assms by simp
  have "\<lfloor>log 2 x\<rfloor> = 3"
    using pos assms by (subst floor_log_eq_powr_iff) simp_all
  then have e: "double_exponent x = 3"
    using pos by (simp add: double_exponent_def)
  have u: "2 powr of_int (double_exponent x - 52) = (1 / 2 ^ 49 :: real)"
    unfolding e by (simp add: powr_minus_divide)
  show ?thesis
    using pos unfolding round_double_def Let_def u by simp
qed

lemma round_double_15: "round_double 15 = 15"
proof -
  have "(15::real) * 2 ^ 49 = of_int 8444249301319680" by simp
  then have "round_half_even ((15::real) * 2 ^ 49) = 8444249301319680"
    by (simp only: round_half_even_int)
  then show ?thesis
    by (simp add: round_double_at_exponent_3)
qed

lemma round_double_next_after_15: "round_double (15 + 1 / 2 ^ 48) = 15 + 1 / 2 ^ 48"
proof -
  have "(15 + 1 / 2 ^ 48 :: real) * 2 ^ 49 = of_int 8444249301319682" by simp
  then have "round_half_even ((15 + 1 / 2 ^ 48 :: real) * 2 ^ 49) = 8444249301319682"
    by (simp only: round_half_even_int)
  then show ?thesis
    by (simp add: round_double_at_exponent_3)
qed

text \<open>
  A difference of at most 15 is never measured as more than 15, and a difference of at
  least 15 and \<open>1 / 2 ^ 48\<close> always is; in between lies one step of the doubles.
\<close>

lemma no_beat_up_to_15: "x \<le> 15 \<Longrightarrow> \<not> 15 < round_double x"
proof (cases "0 < x")
  case True
  assume "x \<le> 15"
  with True have "round_double x \<le> round_double 15" by (rule round_double_mono)
  then show ?thesis by (simp add: round_double_15)
next
  case False
  then have "round_double x \<le> 0" by (intro round_double_nonpos) simp
  then show ?thesis by simp
qed

lemma beat_from_margin: "15 + 1 / 2 ^ 48 \<le> x \<Longrightarrow> 15 < round_double x"
proof -
  assume x: "15 + 1 / 2 ^ 48 \<le> x"
  have "0 < (15 + 1 / 2 ^ 48 :: real)" by simp
  then have "round_double (15 + 1 / 2 ^ 48) \<le> round_double x"
    using x by (rule round_double_mono)
  then have "15 + 1 / 2 ^ 48 \<le> round_double x"
    by (simp only: round_double_next_after_15)
  moreover have "(15::real) < 15 + 1 / 2 ^ 48" by simp
  ultimately show ?thesis by (rule less_le_trans [rotated])
qed

lemma round_double_just_above_15: "round_double (16 - (1 - 1 / 2 ^ 53)) = 15"
proof -
  let ?x = "16 - (1 - 1 / 2 ^ 53) :: real"
  have q: "?x * 2 ^ 49 = 8444249301319680 + 1 / 16" by simp
  have fl: "\<lfloor>8444249301319680 + 1 / 16 :: real\<rfloor> = 8444249301319680"
    by (rule floor_unique) simp_all
  have r: "round_half_even (8444249301319680 + 1 / 16) = 8444249301319680"
    unfolding round_half_even_def fl Let_def by simp
  have "round_double ?x = of_int (round_half_even (?x * 2 ^ 49)) / 2 ^ 49"
    by (rule round_double_at_exponent_3) simp_all
  then show ?thesis
    unfolding q r by simp
qed

section \<open>Properties of the streaming loop\<close>

lemma stream_lines_append:
  "stream_lines ly (pre @ post) = stream_lines ly pre @ stream_lines (last_yield_after ly pre) post"
  by (induction pre arbitrary: ly) (auto simp: Let_def)

lemma last_yield_after_le:
  "sorted (ly # map fst pre) \<Longrightarrow> last_yield_after ly pre \<le> last_arrival ly pre"
proof (induction pre arbitrary: ly)
  case Nil
  then show ?case by (simp add: last_arrival_def)
next
  case (Cons a pre)
  obtain now line where a: "a = (now, line)" by (cases a)
  let ?ly2 = "if line \<noteq> [] then now else if round_double (now - ly) > 15 then now else ly"
  from Cons.prems a have le: "ly \<le> now" and srt: "sorted (now # map fst pre)"
    by auto
  have ly2: "?ly2 \<le> now" using le by auto
  have srt2: "sorted (?ly2 # map fst pre)"
    using srt ly2 by (auto intro: order_trans)
  have step: "last_yield_after ly (a # pre) = last_yield_after ?ly2 pre"
    by (simp add: a Let_def)
  show ?case
  proof (cases "pre = []")
    case True
    then show ?thesis using ly2 by (simp add: a last_arrival_def Let_def)
  next
    case False
    have "last_yield_after ?ly2 pre \<le> last_arrival ?ly2 pre"
      by (rule Cons.IH [OF srt2])
    then show ?thesis using False step by (simp add: last_arrival_def)
  qed
qed

lemma stream_lines_filter:
  assumes "list_all (\<lambda>(t, l). CHR 0x0A \<notin> set l) ups"
  shows "filter (\<lambda>c. c \<noteq> heartbeat) (stream_lines ly ups) = filter (\<lambda>l. l \<noteq> []) (map snd ups)"
  using assms
proof (induction ups arbitrary: ly)
  case Nil
  then show ?case by simp
next
  case (Cons a ups)
  obtain now line where a: "a = (now, line)" by (cases a)
  from Cons.prems a have "CHR 0x0A \<notin> set line" by simp
  then have ne: "line \<noteq> heartbeat" by (auto simp: heartbeat_def)
  have "filter (\<lambda>c. c \<noteq> heartbeat) (stream_lines ly' ups) = filter (\<lambda>l. l \<noteq> []) (map snd ups)" for ly'
    using Cons.prems by (intro Cons.IH) simp
  then show ?case using ne by (simp add: a Let_def)
qed

text \<open>
  C2, as stated, fails. The start reading is the double just below 1 and the first line
  comes at 16: more than 15 seconds have passed, but the double nearest to the
  difference is 15, the test \<open>now - last_yield > 15\<close> is false and the line is sent
  with no heartbeat before it.
\<close>

theorem gap_within_rounding_no_heartbeat:
  "15 < (16::real) - (1 - 1 / 2 ^ 53) \<and>
   stream_chunks \<lparr>upstream_status = 200, t0 = 1 - 1 / 2 ^ 53, lines = [(16, ''a'')]\<rparr> = [''a'']"
proof -
  have "stream_lines (1 - 1 / 2 ^ 53) [(16, ''a'')] = [''a'']"
    by (simp only: stream_lines.simps Let_def round_double_just_above_15) simp
  then show ?thesis
    by (simp add: stream_chunks_def)
qed

text \<open>
  C2, amended. Let the clock be monotonic and the upstream answer 200. Whenever the time
  between one upstream line and the next (or between the start and the first line), as
  the loop measures it, the double nearest to the difference of the two readings, is
  more than 15 seconds, the chunks sent to the client are: what was sent for the earlier
  lines, then the heartbeat frame, a colon and two newlines, then that next line if it
  is not empty, then what is sent for the later lines. So a heartbeat stands before the
  next real line, at every such gap; by \<open>beat_from_margin\<close> every gap of at least 15
  seconds and \<open>1 / 2 ^ 48\<close> is one. The loop emits the frame when the next line arrives.
\<close>

theorem heartbeat_before_line_after_measured_gap:
  assumes mono: "sorted (t0 resp # map fst (lines resp))"
      and ok: "upstream_status resp = 200"
      and split: "lines resp = pre @ (now, line) # post"
      and gap: "round_double (now - last_arrival (t0 resp) pre) > 15"
  shows "stream_chunks resp =
           stream_lines (t0 resp) pre @
           [CHR '':'', CHR 0x0A, CHR 0x0A] # (if line \<noteq> [] then [line] else []) @
           stream_lines now post"
proof -
  from mono split have "sorted (t0 resp # map fst pre)"
    by (auto simp: sorted_append)
  then have le: "last_yield_after (t0 resp) pre \<le> last_arrival (t0 resp) pre"
    by (rule last_yield_after_le)
  have pos: "0 < now - last_arrival (t0 resp) pre"
  proof (rule ccontr)
    assume "\<not> 0 < now - last_arrival (t0 resp) pre"
    then have "round_double (now - last_arrival (t0 resp) pre) \<le> 0"
      by (intro round_double_nonpos) simp
    with gap show False by simp
  qed
  have "round_double (now - last_arrival (t0 resp) pre) \<le>
        round_double (now - last_yield_after (t0 resp) pre)"
    using pos le by (intro round_double_mono) simp_all
  with gap have beat: "round_double (now - last_yield_after (t0 resp) pre) > 15"
    by simp
  have "stream_chunks resp = stream_lines (t0 resp) (pre @ (now, line) # post)"
    using ok split by (simp add: stream_chunks_def)
  also have "\<dots> = stream_lines (t0 resp) pre @
                   stream_lines (last_yield_after (t0 resp) pre) ((now, line) # post)"
    by (rule stream_lines_append)
  also have "stream_lines (last_yield_after (t0 resp) pre) ((now, line) # post) =
               [CHR '':'', CHR 0x0A, CHR 0x0A] # (if line \<noteq> [] then [line] else []) @
               stream_lines now post"
    using beat by (simp add: Let_def heartbeat_def)
  finally show ?thesis .
qed

text \<open>The gap from 1 to 20 seconds: the frame stands between \<open>a\<close> and \<open>b\<close>.\<close>

theorem heartbeat_before_line_after_measured_gap_witness:
  "stream_chunks \<lparr>upstream_status = 200, t0 = 0, lines = [(1, ''a''), (20, ''''), (21, ''b'')]\<rparr> =
     [''a'', [CHR '':'', CHR 0x0A, CHR 0x0A], ''b'']"
proof -
  let ?r = "\<lparr>upstream_status = 200, t0 = 0, lines = [(1, ''a''), (20, ''''), (21, ''b'')]\<rparr>"
  have mono: "sorted (t0 ?r # map fst (lines ?r))" by simp
  have ok: "upstream_status ?r = 200" by simp
  have split: "lines ?r = [(1, ''a'')] @ (20, '''') # [(21, ''b'')]" by simp
  have gap: "round_double (20 - last_arrival (t0 ?r) [(1, ''a'')]) > 15"
    by (simp add: last_arrival_def beat_from_margin)
  have small: "\<not> 15 < round_double (1 - 0)" "\<not> 15 < round_double (21 - 20)"
    by (simp_all add: no_beat_up_to_15)
  show ?thesis
    using heartbeat_before_line_after_measured_gap [OF mono ok split gap] small
    by (simp add: Let_def)
qed

text \<open>
  C4, as stated, fails: an empty line received from the upstream is not forwarded, so the
  received lines are no subsequence of the chunks sent.
\<close>

theorem empty_line_not_forwarded:
  "\<not> subseq (map snd (lines \<lparr>upstream_status = 200, t0 = 0, lines = [(1, ''a''), (2, ''''), (3, ''b'')]\<rparr>))
              (stream_chunks \<lparr>upstream_status = 200, t0 = 0, lines = [(1, ''a''), (2, ''''), (3, ''b'')]\<rparr>)"
proof -
  have small: "\<not> 15 < round_double (1 - 0)" "\<not> 15 < round_double (2 - 1)"
    "\<not> 15 < round_double (3 - 1)"
    by (simp_all add: no_beat_up_to_15)
  show ?thesis
    using small by (simp add: stream_chunks_def Let_def)
qed

text \<open>
  C4, amended. For an upstream answer 200 whose lines hold no newline character (as
  \<open>aiter_lines\<close> delivers them), the chunks sent, heartbeat frames apart, are exactly the
  non-empty lines received, in their order; empty lines are dropped by the guard
  \<open>if line:\<close>. The chunks for the lines received so far never depend on later lines.
\<close>

theorem forwards_nonempty_lines_in_order:
  assumes "upstream_status resp = 200"
      and "list_all (\<lambda>(t, l). CHR 0x0A \<notin> set l) (lines resp)"
  shows "filter (\<lambda>c. c \<noteq> heartbeat) (stream_chunks resp) =
           filter (\<lambda>l. l \<noteq> []) (map snd (lines resp)) \<and>
         (\<forall>pre post. lines resp = pre @ post \<longrightarrow>
            prefix (stream_lines (t0 resp) pre) (stream_chunks resp))"
  using assms by (simp add: stream_chunks_def stream_lines_filter stream_lines_append)

theorem forwards_nonempty_lines_in_order_witness:
  "filter (\<lambda>c. c \<noteq> heartbeat)
     (stream_chunks \<lparr>upstream_status = 200, t0 = 0, lines = [(1, ''a''), (2, ''''), (30, ''b'')]\<rparr>) =
   [''a'', ''b''] \<and>
   prefix [''a''] (stream_chunks \<lparr>upstream_status = 200, t0 = 0, lines = [(1, ''a''), (2, ''''), (30, ''b'')]\<rparr>)"
proof -
  let ?r = "\<lparr>upstream_status = 200, t0 = 0, lines = [(1, ''a''), (2, ''''), (30, ''b'')]\<rparr>"
  have h0: "upstream_status ?r = 200" by simp
  have h: "list_all (\<lambda>(t, l). CHR 0x0A \<notin> set l) (lines ?r)" by simp
  note th = forwards_nonempty_lines_in_order [OF h0 h]
  have a: "filter (\<lambda>c. c \<noteq> heartbeat) (stream_chunks ?r) = [''a'', ''b'']"
    using th by simp
  have "lines ?r = [(1, ''a'')] @ [(2, ''''), (30, ''b'')]" by simp
  then have "prefix (stream_lines (t0 ?r) [(1, ''a'')]) (stream_chunks ?r)"
    by (rule th [THEN conjunct2, rule_format])
  then have b: "prefix [''a''] (stream_chunks ?r)" by (simp add: Let_def no_beat_up_to_15)
  from a b show ?thesis by simp
qed

section \<open>Properties of the callback, of logout and of \<open>/speak\<close>\<close>

text \<open>
  C3. With authentication enabled and no user in the session, a callback whose \<open>state\<close>
  query parameter differs from the session's stored \<open>state\<close> answers 400 with the error
  body \<open>State mismatch\<close>. The session mapping is returned as it was, so no \<open>user\<close> entry
  is created, and the outside world is returned as it was, whatever the identity provider
  would do: no token exchange takes place.
\<close>

theorem callback_state_mismatch:
  assumes "ENABLE_AUTHENTICATION cfg"
      and "\<not> truthy (py_get sess ''user'')"
      and "qp_get (query_params request) ''state'' \<noteq> py_get sess ''state''"
  shows "authorized ex cfg request sess w =
           (Inr (JSONResponse (JObj [(''error'', JStr ''State mismatch'')]) 400), sess, w) \<and>
         status_code (JSONResponse (JObj [(''error'', JStr ''State mismatch'')]) 400) = 400"
  using assms by (simp add: authorized_def JSONResponse_def)

text \<open>The nonce \<open>n1\<close> in the query against \<open>n2\<close> in the session, with a code present.\<close>

theorem callback_state_mismatch_witness:
  "authorized demo_ext demo_cfg (demo_request\<lparr>query_params := [''state'' \<mapsto> ''n1'', ''code'' \<mapsto> ''c1'']\<rparr>)
     [''state'' \<mapsto> JStr ''n2''] (0::nat) =
   (Inr (JSONResponse (JObj [(''error'', JStr ''State mismatch'')]) 400), [''state'' \<mapsto> JStr ''n2''], 0)"
  using callback_state_mismatch
    [of demo_cfg "[''state'' \<mapsto> JStr ''n2'']"
        "demo_request\<lparr>query_params := [''state'' \<mapsto> ''n1'', ''code'' \<mapsto> ''c1'']\<rparr>" demo_ext 0]
  by (simp add: demo_cfg_def demo_request_def py_get_def qp_get_def)

text \<open>
  C10. With authentication enabled and no user in the session, a callback without a
  \<open>state\<close> query parameter on a session without a stored \<open>state\<close> passes the state
  check: the answer is that of the checks which follow it, the provider-error check, then
  the authorization-code check, then the exchange of the code.
\<close>

theorem callback_absent_state_passes:
  assumes "ENABLE_AUTHENTICATION cfg"
      and "\<not> truthy (py_get sess ''user'')"
      and "query_params request ''state'' = None"
      and "sess ''state'' = None"
  shows "authorized ex cfg request sess w =
           (if query_params request ''error'' \<noteq> None
            then (Inr (JSONResponse
                         (JObj [(''error'', qp_get_default (query_params request)
                                              ''error_description'' ''Unknown error'')]) 400),
                  sess, w)
            else if \<not> truthy (qp_get (query_params request) ''code'')
            then (Inr (JSONResponse (JObj [(''error'', JStr ''Authorization code not found'')]) 400),
                  sess, w)
            else authorized_exchange ex cfg (the (query_params request ''code'')) sess w)"
  using assms by (simp add: authorized_def py_get_def qp_get_def split: option.splits)

text \<open>Nothing in the query, nothing in the session: the missing code is reported.\<close>

theorem callback_absent_state_passes_witness:
  "authorized demo_ext demo_cfg demo_request Map.empty (0::nat) =
     (Inr (JSONResponse (JObj [(''error'', JStr ''Authorization code not found'')]) 400), Map.empty, 0)"
  using callback_absent_state_passes [of demo_cfg Map.empty demo_request demo_ext 0]
  by (simp add: demo_cfg_def demo_request_def py_get_def qp_get_def)

text \<open>
  C7. Logout leaves the empty session mapping, whatever the session held. With
  authentication enabled, the authorization check on that empty mapping answers
  unauthorized, with no principal id, no principal name, no groups and no token, and
  touches neither the session nor the outside world.
\<close>

theorem logout_then_unauthorized:
  assumes "ENABLE_AUTHENTICATION cfg"
  shows "\<exists>resp. logout cfg request sess w = (Inr resp, Map.empty, w) \<and>
           check_authorization ex cfg Map.empty w' =
             (Inr \<lparr>is_authorized = False, client_principal_id = JNull,
                   client_principal_name = JNull, client_group_names = [],
                   access_token = JNull\<rparr>, Map.empty, w')"
  using assms by (simp add: logout_def check_authorization_def py_get_def Let_def)

text \<open>Logging out of a session that holds a user and a nonce.\<close>

theorem logout_then_unauthorized_witness:
  "fst (snd (logout demo_cfg demo_request
               [''user'' \<mapsto> JObj [(''oid'', JStr ''u1'')], ''state'' \<mapsto> JStr ''n''] (0::nat))) = Map.empty \<and>
   check_authorization demo_ext demo_cfg Map.empty (0::nat) =
     (Inr \<lparr>is_authorized = False, client_principal_id = JNull,
           client_principal_name = JNull, client_group_names = [],
           access_token = JNull\<rparr>, Map.empty, 0)"
proof -
  have e: "ENABLE_AUTHENTICATION demo_cfg" by (simp add: demo_cfg_def)
  from logout_then_unauthorized
         [OF e, of demo_request "[''user'' \<mapsto> JObj [(''oid'', JStr ''u1'')], ''state'' \<mapsto> JStr ''n'']"
            "0::nat" demo_ext "0::nat"]
  obtain resp where
    l: "logout demo_cfg demo_request
          [''user'' \<mapsto> JObj [(''oid'', JStr ''u1'')], ''state'' \<mapsto> JStr ''n''] (0::nat) =
        (Inr resp, Map.empty, 0)" and
    c: "check_authorization demo_ext demo_cfg Map.empty (0::nat) =
          (Inr \<lparr>is_authorized = False, client_principal_id = JNull,
                client_principal_name = JNull, client_group_names = [],
                access_token = JNull\<rparr>, Map.empty, 0)"
    by blast
  from l have "fst (snd (logout demo_cfg demo_request
               [''user'' \<mapsto> JObj [(''oid'', JStr ''u1'')], ''state'' \<mapsto> JStr ''n''] (0::nat))) = Map.empty"
    by simp
  with c show ?thesis by simp
qed

section \<open>Properties of \<open>/speak\<close>\<close>

lemma utf8_decode_ascii:
  "list_all (\<lambda>c. (of_char c :: nat) < 0x80) s \<Longrightarrow> utf8_decode s = map of_char s"
  by (induction s) (simp_all add: Let_def)

lemma no_surrogate_ascii:
  "list_all (\<lambda>c. (of_char c :: nat) < 0x80) s \<Longrightarrow> \<not> has_surrogate_str s"
  by (auto simp: has_surrogate_str_def utf8_decode_ascii list_ex_iff list_all_iff is_surrogate_def)

lemma render_error_unauthorized:
  "render_error (JObj
     [(''answer'', JStr (''You are not authorized to access this service. '' @
                         ''Please contact your administrator.'')),
      (''thoughts'', JStr ''User not authorized.''),
      (''conversation_id'', conversation_id)]) = render_error conversation_id"
proof -
  have "\<not> has_surrogate_str ''answer''" "\<not> has_surrogate_str ''thoughts''"
    "\<not> has_surrogate_str ''conversation_id''"
    "\<not> has_surrogate_str (''You are not authorized to access this service. '' @
                            ''Please contact your administrator.'')"
    "\<not> has_surrogate_str ''User not authorized.''"
    by (rule no_surrogate_ascii, simp)+
  then show ?thesis
    by (simp add: render_error_def)
qed

text \<open>
  C8, as stated, fails: a request whose body is the JSON text of an empty list has no
  \<open>spokenText\<close> field, and the handler ends in the \<open>AttributeError\<close> of \<open>body.get\<close>,
  which is no HTTP exception with status 400.
\<close>

theorem speak_body_not_an_object:
  "speak demo_ext demo_cfg (demo_request\<lparr>json_body := Inr (JArr [])\<rparr>) Map.empty (0::nat) =
     (Inl AttributeError, Map.empty, 0)"
  by (simp add: speak_def)

text \<open>
  C8, amended. When the body of a \<open>/speak\<close> request is a JSON object that has no
  \<open>spokenText\<close> field, or an empty one, the handler raises the HTTP exception with
  status 400. The session and the outside world are returned as they were, whatever the
  configuration and the session hold: the authorization check has not run and no call
  has gone out.
\<close>

theorem speak_missing_question:
  assumes "json_body request = Inr (JObj kvs)"
      and "map_of kvs ''spokenText'' = None \<or>
           (\<exists>v. map_of kvs ''spokenText'' = Some v \<and> \<not> truthy v)"
  shows "speak ex cfg request sess w =
           (Inl (HTTPException 400 ''Missing spokenText in request.''), sess, w)"
  using assms by (auto simp: speak_def kv_get_def Let_def)

text \<open>An empty question and a missing one, on a session with a user.\<close>

theorem speak_missing_question_witness:
  "speak demo_ext demo_cfg (demo_request\<lparr>json_body := Inr (JObj [(''spokenText'', JStr '''')])\<rparr>)
     [''user'' \<mapsto> JObj [(''oid'', JStr ''u1'')]] (0::nat) =
   (Inl (HTTPException 400 ''Missing spokenText in request.''), [''user'' \<mapsto> JObj [(''oid'', JStr ''u1'')]], 0) \<and>
   speak demo_ext demo_cfg demo_request [''user'' \<mapsto> JObj [(''oid'', JStr ''u1'')]] (0::nat) =
   (Inl (HTTPException 400 ''Missing spokenText in request.''), [''user'' \<mapsto> JObj [(''oid'', JStr ''u1'')]], 0)"
  using speak_missing_question
    [of "demo_request\<lparr>json_body := Inr (JObj [(''spokenText'', JStr '''')])\<rparr>"
        "[(''spokenText'', JStr '''')]" demo_ext demo_cfg
        "[''user'' \<mapsto> JObj [(''oid'', JStr ''u1'')]]" 0]
    speak_missing_question
    [of demo_request "[]" demo_ext demo_cfg "[''user'' \<mapsto> JObj [(''oid'', JStr ''u1'')]]" 0]
  by (simp add: demo_request_def)

text \<open>
  C9, as stated, fails: for the body \<open>{"spokenText": "hello", "conversation_id": 1e999}\<close>,
  whose conversation id \<open>json.loads\<close> reads as infinity, the 401 response cannot be
  rendered and the handler ends in \<open>ValueError\<close>, not in a 401.
\<close>

theorem speak_unauthorized_unrenderable:
  "speak demo_ext demo_cfg
     (demo_request\<lparr>json_body := Inr (JObj [(''spokenText'', JStr ''hello''),
                                               (''conversation_id'', JFloat PosInf)])\<rparr>)
     Map.empty (0::nat) = (Inl (LibraryError ''ValueError''), Map.empty, 0)"
proof -
  have "render_error (JObj
          [(''answer'', JStr (''You are not authorized to access this service. '' @
                              ''Please contact your administrator.'')),
           (''thoughts'', JStr ''User not authorized.''),
           (''conversation_id'', JFloat PosInf)]) = Some (LibraryError ''ValueError'')"
    by (simp only: render_error_unauthorized) (simp add: render_error_def)
  then show ?thesis
    by (simp add: speak_def check_authorization_def demo_cfg_def kv_get_def py_get_def Let_def)
qed

text \<open>
  C9, amended. A \<open>/speak\<close> request whose body is a JSON object with a non-empty
  question and a conversation id that can be rendered (it holds no \<open>NaN\<close>, no infinity
  and no surrogate; a missing one is the empty string), with authentication enabled and
  no user in the session, is answered 401 with a JSON body that holds the fields
  \<open>answer\<close>, \<open>thoughts\<close> and \<open>conversation_id\<close>. The answer is no streaming body and the
  outside world is returned as it was: no call to the orchestrator is made.
\<close>

theorem speak_unauthorized:
  assumes "json_body request = Inr (JObj kvs)"
      and "truthy (kv_get kvs ''spokenText'')"
      and "conversation_id = (case map_of kvs ''conversation_id'' of
                                None \<Rightarrow> JStr [] | Some v \<Rightarrow> v)"
      and "render_error conversation_id = None"
      and "ENABLE_AUTHENTICATION cfg"
      and "\<not> truthy (py_get sess ''user'')"
  shows "\<exists>response. speak ex cfg request sess w = (Inr response, sess, w) \<and>
           status_code response = 401 \<and>
           body response = JsonBody (JObj
             [(''answer'', JStr (''You are not authorized to access this service. '' @
                                 ''Please contact your administrator.'')),
              (''thoughts'', JStr ''User not authorized.''),
              (''conversation_id'', conversation_id)])"
proof -
  have "render_error (JObj
          [(''answer'', JStr (''You are not authorized to access this service. '' @
                              ''Please contact your administrator.'')),
           (''thoughts'', JStr ''User not authorized.''),
           (''conversation_id'', conversation_id)]) = None"
    using assms(4) by (simp only: render_error_unauthorized)
  then show ?thesis
    using assms(1,2,5,6) unfolding assms(3)
    by (simp add: speak_def check_authorization_def JSONResponse_def Let_def)
qed

text \<open>The question \<open>hello\<close> in conversation \<open>c7\<close>, on an empty session.\<close>

theorem speak_unauthorized_witness:
  "\<exists>response.
     speak demo_ext demo_cfg
       (demo_request\<lparr>json_body := Inr (JObj [(''spokenText'', JStr ''hello''),
                                                 (''conversation_id'', JStr ''c7'')])\<rparr>)
       Map.empty (0::nat) = (Inr response, Map.empty, 0) \<and>
     status_code response = 401 \<and>
     body response = JsonBody (JObj
       [(''answer'', JStr (''You are not authorized to access this service. '' @
                           ''Please contact your administrator.'')),
        (''thoughts'', JStr ''User not authorized.''),
        (''conversation_id'', JStr ''c7'')])"
proof -
  have r: "render_error (JStr ''c7'') = None"
    by (simp add: render_error_def no_surrogate_ascii)
  show ?thesis
    using speak_unauthorized
      [of "demo_request\<lparr>json_body := Inr (JObj [(''spokenText'', JStr ''hello''),
                                                    (''conversation_id'', JStr ''c7'')])\<rparr>"
          "[(''spokenText'', JStr ''hello''), (''conversation_id'', JStr ''c7'')]"
          "JStr ''c7''" demo_cfg Map.empty demo_ext 0] r
    by (simp add: demo_cfg_def py_get_def kv_get_def)
qed

section \<open>Properties of \<open>check_authorization\<close>\<close>

text \<open>
  Silent acquisition changes the session only when it returns a token, and then only the
  entry \<open>msal_cache\<close>.
\<close>

lemma get_valid_access_token_raises:
  "get_valid_access_token ex sess scopes w = (Inl e, sess', w') \<Longrightarrow> sess' = sess"
  by (auto simp: get_valid_access_token_def Let_def
           split: prod.splits sum.splits option.splits if_splits)

lemma get_valid_access_token_returns:
  "get_valid_access_token ex sess scopes w = (Inr t, sess', w') \<Longrightarrow> k \<noteq> ''msal_cache'' \<Longrightarrow>
   sess' k = sess k"
  by (auto simp: get_valid_access_token_def save_cache_def Let_def
           split: prod.splits sum.splits option.splits if_splits)

lemma refresh_graph_token_cases:
  "refresh_graph_token ex sess w =
     (case get_valid_access_token ex sess BASIC_SCOPE w of
        (Inr t, sess', w') \<Rightarrow> (t, sess'(''graph_access_token'' \<mapsto> t), w')
      | (Inl e, sess', w') \<Rightarrow> (py_get sess ''graph_access_token'', sess, w'))"
  by (auto simp: refresh_graph_token_def dest: get_valid_access_token_raises
           split: prod.splits sum.splits)

lemma refresh_graph_token_other:
  "refresh_graph_token ex sess w = (t, sess1, w1) \<Longrightarrow>
   py_get sess1 ''other_access_token'' = py_get sess ''other_access_token''"
  by (auto simp: refresh_graph_token_cases py_get_def
           dest: get_valid_access_token_returns [where k = "''other_access_token''"]
           split: prod.splits sum.splits)

lemma refresh_other_token_cases:
  "refresh_other_token ex cfg sess w =
     (if OTHER_AUTH_SCOPES cfg \<noteq> [] then
        (case get_valid_access_token ex sess (other_scopes (OTHER_AUTH_SCOPES cfg)) w of
           (Inr t, sess', w') \<Rightarrow> (t, sess'(''other_access_token'' \<mapsto> t), w')
         | (Inl e, sess', w') \<Rightarrow> (py_get sess ''other_access_token'', sess, w'))
      else (JNull, sess, w))"
  by (auto simp: refresh_other_token_def dest: get_valid_access_token_raises
           split: prod.splits sum.splits)

text \<open>
  C5. With authentication enabled and a user in the session, the authorization check
  returns an authorized decision whatever silent acquisition does: no failure of a token
  refresh fails the request. The basic token is the one acquired for \<open>BASIC_SCOPE\<close>, or,
  when that acquisition raises, the session's stored \<open>graph_access_token\<close> (\<open>None\<close> when
  absent). When \<open>OTHER_AUTH_SCOPES\<close> is set, a second acquisition for those scopes runs
  whether or not the first one failed, on the session and the world the first one left;
  its token is the one acquired, or, when it raises, the session's stored
  \<open>other_access_token\<close>. The decision's \<open>access_token\<close> is the secondary token when that
  is a non-empty value, and the basic token otherwise.
\<close>

theorem token_refresh_never_fails:
  assumes "ENABLE_AUTHENTICATION cfg"
      and "sess ''user'' = Some (JObj u)"
      and "u \<noteq> []"
  shows "\<exists>info sess' w'.
           check_authorization ex cfg sess w = (Inr info, sess', w') \<and> is_authorized info \<and>
           (let (r1, s1, w1) = get_valid_access_token ex sess BASIC_SCOPE w;
                graph = (case r1 of Inr t \<Rightarrow> t | Inl e \<Rightarrow> py_get sess ''graph_access_token'');
                sess1 = (case r1 of Inr t \<Rightarrow> s1(''graph_access_token'' \<mapsto> t) | Inl e \<Rightarrow> sess);
                (r2, s2, w2) = get_valid_access_token ex sess1
                                 (other_scopes (OTHER_AUTH_SCOPES cfg)) w1;
                other = (if OTHER_AUTH_SCOPES cfg = [] then JNull
                         else case r2 of Inr t \<Rightarrow> t
                              | Inl e \<Rightarrow> py_get sess ''other_access_token'')
            in access_token info = (if truthy other then other else graph))"
proof -
  obtain r1 s1 w1 where g1: "get_valid_access_token ex sess BASIC_SCOPE w = (r1, s1, w1)"
    by (cases "get_valid_access_token ex sess BASIC_SCOPE w") auto
  define graph where "graph = (case r1 of Inr t \<Rightarrow> t | Inl e \<Rightarrow> py_get sess ''graph_access_token'')"
  define sess1 where "sess1 = (case r1 of Inr t \<Rightarrow> s1(''graph_access_token'' \<mapsto> t) | Inl e \<Rightarrow> sess)"
  have rg: "refresh_graph_token ex sess w = (graph, sess1, w1)"
    using g1 by (simp add: refresh_graph_token_cases graph_def sess1_def split: sum.splits)
  obtain r2 s2 w2 where
    g2: "get_valid_access_token ex sess1 (other_scopes (OTHER_AUTH_SCOPES cfg)) w1 = (r2, s2, w2)"
    by (cases "get_valid_access_token ex sess1 (other_scopes (OTHER_AUTH_SCOPES cfg)) w1") auto
  define other where "other = (if OTHER_AUTH_SCOPES cfg = [] then JNull
                         else case r2 of Inr t \<Rightarrow> t
                              | Inl e \<Rightarrow> py_get sess ''other_access_token'')"
  have keep: "py_get sess1 ''other_access_token'' = py_get sess ''other_access_token''"
    using rg by (rule refresh_graph_token_other)
  have "fst (refresh_other_token ex cfg sess1 w1) = other"
    using g2 keep by (cases r2) (simp_all add: refresh_other_token_cases other_def)
  then obtain sess2 w2' where ro: "refresh_other_token ex cfg sess1 w1 = (other, sess2, w2')"
    by (cases "refresh_other_token ex cfg sess1 w1") auto
  obtain groups w3 where lg: "lookup_groups ex graph w2' = (groups, w3)"
    by (cases "lookup_groups ex graph w2'") auto
  have "check_authorization ex cfg sess w =
          (Inr \<lparr>is_authorized = True, client_principal_id = kv_get u ''oid'',
                client_principal_name = py_or (kv_get u ''preferred_username'') (kv_get u ''upn''),
                client_group_names = groups,
                access_token = (if truthy other then other else graph)\<rparr>, sess2, w3)"
    using assms rg ro lg by (simp add: check_authorization_def py_get_def Let_def)
  then show ?thesis
    using g1 g2 by (simp add: graph_def sess1_def other_def Let_def)
qed

text \<open>
  A session without a token cache: both silent acquisitions raise, and the stored
  secondary token is the one returned.
\<close>

theorem token_refresh_never_fails_witness:
  "\<exists>info sess' w'.
     check_authorization demo_ext (demo_cfg\<lparr>OTHER_AUTH_SCOPES := ''api://avatar/.default''\<rparr>)
       [''user'' \<mapsto> JObj [(''oid'', JStr ''u1'')], ''graph_access_token'' \<mapsto> JStr ''g-old'',
        ''other_access_token'' \<mapsto> JStr ''o-old''] (0::nat) = (Inr info, sess', w') \<and>
     is_authorized info \<and> access_token info = JStr ''o-old''"
proof -
  let ?cfg = "demo_cfg\<lparr>OTHER_AUTH_SCOPES := ''api://avatar/.default''\<rparr>"
  let ?sess = "[''user'' \<mapsto> JObj [(''oid'', JStr ''u1'')], ''graph_access_token'' \<mapsto> JStr ''g-old'',
                ''other_access_token'' \<mapsto> JStr ''o-old'']"
  have e: "ENABLE_AUTHENTICATION ?cfg" by (simp add: demo_cfg_def)
  have u: "?sess ''user'' = Some (JObj [(''oid'', JStr ''u1'')])" by simp
  have n: "[(''oid'', JStr ''u1'')] \<noteq> []" by simp
  have g: "get_valid_access_token demo_ext s scopes (k::nat) =
             (Inl (Exception (JStr no_token_msg)), s, Suc k)" if "s ''msal_cache'' = None" for s scopes k
    using that by (simp add: get_valid_access_token_def load_cache_def demo_ext_def)
  from token_refresh_never_fails
         [of ?cfg ?sess "[(''oid'', JStr ''u1'')]" demo_ext "0::nat", OF e u n]
  show ?thesis
    by (simp add: g py_get_def demo_cfg_def)
qed

section \<open>Properties of the session middleware\<close>

text \<open>
  C1, as stated, fails. A request arrives with the cookie \<open>abc\<close>, whose session file
  holds the empty object; the application stores a nonce in the session and then
  raises. \<open>dispatch\<close> passes the exception on and the session file is as it was: the
  write is dropped, while the client is still answered (with the server error that the
  framework makes of the exception).
\<close>

theorem write_dropped_when_handler_raises:
  "dispatch default_middleware demo_ext
     (demo_request\<lparr>cookies := [''session_id'' \<mapsto> ''abc'']\<rparr>) failing_next
     (demo_fs\<lparr>contents := [''sessions/abc.json'' \<mapsto> ''{}'']\<rparr>, 0::nat) =
   (Inl (LibraryError ''ConnectionError''),
    demo_fs\<lparr>contents := [''sessions/abc.json'' \<mapsto> ''{}'']\<rparr>, 0)"
proof -
  have "json_loads ''{}'' = Some (JObj [])"
    by (simp add: json_loads_def skip_ws_def is_ws_def)
  then show ?thesis
    by (simp add: dispatch_def load_session_def default_middleware_def session_file_def
          os_path_join_def demo_fs_def failing_next_def)
qed

text \<open>
  C1, amended. \<open>dispatch\<close> loads the session value from the session files as they are
  when the request arrives, strictly before the wrapped application runs; when the open
  or the read of the session file raises, the application does not run at all. When an
  exception comes out of the application, \<open>dispatch\<close> passes it on and writes nothing.
  When the application gives a response, of whatever status, the value the handler left
  is serialized and written strictly after, to the file of the session id (that of the
  cookie, or a freshly minted one, which the response then carries as a cookie), over
  the files as the application left them: if the write succeeds the response is
  returned, and if it raises, the exception takes the place of the response.
\<close>

theorem dispatch_load_call_persist:
  "(\<forall>e. load_session mw request files = Inl e \<longrightarrow>
        dispatch mw ex request call_next (files, w) = (Inl e, files, w)) \<and>
   (\<forall>s0 e s1 st1.
      load_session mw request files = Inr s0 \<and>
      call_next request s0 (files, w) = (Inl e, s1, st1) \<longrightarrow>
      dispatch mw ex request call_next (files, w) = (Inl e, st1)) \<and>
   (\<forall>s0 response s1 files1 w1.
      load_session mw request files = Inr s0 \<and>
      call_next request s0 (files, w) = (Inr response, s1, files1, w1) \<longrightarrow>
      (let c = cookies request (cookie_name mw);
           sid = (if str_truthy c then the c else fst (token_hex ex 16 w1));
           response' = (if str_truthy c then response
                        else set_cookie
                               \<lparr>cookie_key = cookie_name mw, cookie_value = sid,
                                cookie_max_age = max_age mw, cookie_httponly = True,
                                cookie_samesite = ''lax''\<rparr> response);
           w2 = (if str_truthy c then w1 else snd (token_hex ex 16 w1));
           path = session_file mw sid
       in (unwritable files1 path = None \<longrightarrow>
             dispatch mw ex request call_next (files, w) =
               (Inr response',
                files1\<lparr>contents := (contents files1)(path \<mapsto> json_dumps (float_repr ex) s1)\<rparr>,
                w2)) \<and>
          (\<forall>e. unwritable files1 path = Some (OpenFails e) \<longrightarrow>
             dispatch mw ex request call_next (files, w) = (Inl e, files1, w2)) \<and>
          (\<forall>e. unwritable files1 path = Some (WriteFails e) \<longrightarrow>
             dispatch mw ex request call_next (files, w) =
               (Inl e, files1\<lparr>contents := (contents files1)(path \<mapsto> [])\<rparr>, w2))))"
  by (simp add: dispatch_def write_file_def Let_def split: prod.splits)

text \<open>
  A first request without a cookie: nothing is loaded, the application stores a nonce
  and redirects, and the session file, which did not exist, holds the serialized mapping
  with the nonce under the minted id, which the response carries.
\<close>

theorem dispatch_load_call_persist_witness:
  "dispatch default_middleware demo_ext demo_request store_nonce_next (demo_fs, 0::nat) =
     (Inr (set_cookie
             \<lparr>cookie_key = ''session_id'', cookie_value = ''000102030405060708090a0b0c0d0e0f'',
              cookie_max_age = 86400, cookie_httponly = True, cookie_samesite = ''lax''\<rparr>
             (RedirectResponse ''/'' 303)),
      demo_fs\<lparr>contents := [''sessions/000102030405060708090a0b0c0d0e0f.json'' \<mapsto>
                              json_dumps (float_repr demo_ext) (JObj [(''state'', JStr ''n1'')])]\<rparr>,
      1)"
proof -
  have load: "load_session default_middleware demo_request demo_fs = Inr (JObj [])"
    by (simp add: load_session_def demo_request_def default_middleware_def)
  have run: "store_nonce_next demo_request (JObj []) (demo_fs, 0::nat) =
               (Inr (RedirectResponse ''/'' 303), JObj [(''state'', JStr ''n1'')], demo_fs, 0)"
    by (simp add: store_nonce_next_def)
  note th = dispatch_load_call_persist
    [of default_middleware demo_request demo_fs demo_ext store_nonce_next "0::nat",
     THEN conjunct2, THEN conjunct2, rule_format, OF conjI, OF load run]
  have tok: "token_hex demo_ext 16 (0::nat) = (''000102030405060708090a0b0c0d0e0f'', 1)"
    by (simp add: demo_ext_def)
  have free: "unwritable demo_fs ''sessions/000102030405060708090a0b0c0d0e0f.json'' = None"
    by (simp add: demo_fs_def)
  have none: "contents demo_fs = Map.empty"
    by (simp add: demo_fs_def)
  show ?thesis
    using th tok free none
    by (simp add: Let_def demo_request_def default_middleware_def str_truthy_def
          session_file_def os_path_join_def)
qed

end
